theory Spec2Isabelle
  imports Complex_Main
begin

section \<open>Python values and errors\<close>

text \<open>
  The exceptions raised in the three datamodule files: the explicit
  \<^verbatim>\<open>MisconfigurationException\<close> of the loader methods, the ones Python raises for
  a call with a missing or doubled argument, a local read before assignment, a failed
  tuple unpacking and a missing dictionary key, and the \<^verbatim>\<open>ValueError\<close> with which
  the library calls \<^verbatim>\<open>DataLoader(...)\<close> and \<^verbatim>\<open>random_split(...)\<close> reject their
  arguments. \<^verbatim>\<open>MisconfigurationException\<close> carries its message; where the message of
  an exception embeds a value, the exception carries the name of the argument, key or
  variable at fault instead.
\<close>

datatype error =
    MisconfigurationException string
  | TypeError string
  | UnboundLocalError string
  | ValueError string
  | KeyError string

text \<open>
  The configuration bag \<^verbatim>\<open>**kwargs\<close> is a dictionary from option names to values. The
  datamodules add only strings (\<^verbatim>\<open>split\<close>) and band lists (\<^verbatim>\<open>bands\<close>); every other
  value is opaque to them.
\<close>

datatype 'a kwval = VStr string | VStrs "string list" | VOther 'a

type_synonym 'a kwargs = "string \<rightharpoonup> 'a kwval"

text \<open>
  A dataset is either an object built by a dataset class, or a
  \<^verbatim>\<open>torch.utils.data.Subset\<close> of a dataset with the list of selected indices.
\<close>

datatype 'd dataset = Provided 'd | Subset "'d dataset" "nat list"

text \<open>
  \<^verbatim>\<open>x or y\<close>: the first operand when it is true, else the second. \<^verbatim>\<open>None\<close> is
  false; the truth value of any other object is given by \<open>truth\<close> (for an \<^verbatim>\<open>int\<close>,
  being nonzero; for a module, its \<^verbatim>\<open>__bool__\<close> or \<^verbatim>\<open>__len__\<close>, so that an empty
  container module is false).
\<close>

definition py_or :: "('x \<Rightarrow> bool) \<Rightarrow> 'x option \<Rightarrow> 'x \<Rightarrow> 'x" where
  "py_or truth a b = (case a of None \<Rightarrow> b | Some x \<Rightarrow> if truth x then x else b)"

definition int_truth :: "int \<Rightarrow> bool" where
  "int_truth n = (n \<noteq> 0)"

text \<open>
  A call \<^verbatim>\<open>cls(k1=v1, ..., **kw)\<close>. Python raises \<^verbatim>\<open>TypeError\<close> (multiple values for
  a keyword argument) when \<open>kw\<close> has one of the explicit keys; otherwise the class
  receives the merged keywords. The result carries the list of keyword dictionaries the
  class was called with, so that what a method constructs can be stated. The error names
  the doubled key: with one explicit key, as in the base and the counting datamodule,
  that key.
\<close>

type_synonym ('a, 'r) run = "'a kwargs list \<times> (error + 'r)"

definition construct ::
  "('a kwargs \<Rightarrow> 'd) \<Rightarrow> (string \<times> 'a kwval) list \<Rightarrow> 'a kwargs \<Rightarrow> ('a, 'd dataset) run" where
  "construct cls explicit kw =
     (case filter (\<lambda>k. \<not> Option.is_none (kw k)) (map fst explicit) of
        [] \<Rightarrow> ([kw ++ map_of explicit], Inr (Provided (cls (kw ++ map_of explicit))))
      | k # _ \<Rightarrow> ([], Inl (TypeError k)))"

definition bind_run :: "('a, 'r) run \<Rightarrow> ('r \<Rightarrow> ('a, 's) run) \<Rightarrow> ('a, 's) run" where
  "bind_run r f =
     (case r of
        (calls, Inl e) \<Rightarrow> (calls, Inl e)
      | (calls, Inr x) \<Rightarrow> (case f x of (calls', y) \<Rightarrow> (calls @ calls', y)))"

definition quoted :: "string \<Rightarrow> string" where
  "quoted s = [CHR 0x27] @ s @ [CHR 0x27]"

section \<open>The base datamodule (geo.py)\<close>

text \<open>
  \<^verbatim>\<open>K.Normalize(mean=..., std=...)\<close> takes a scalar or a vector for each statistic.
  \<^verbatim>\<open>AugmentationSequential\<close> and the modules a user assigns to the stage-specific
  slots are objects of an open class hierarchy: they are of a type \<open>'p\<close>, built by a
  constructor, called on a batch and tested for truth through parameters.
\<close>

datatype stat = Scalar real | Vector "real list"

datatype normalize = Normalize (norm_mean: stat) (norm_std: stat)

definition NonGeoDataModule_mean :: stat where
  "NonGeoDataModule_mean = Scalar 0"

definition NonGeoDataModule_std :: stat where
  "NonGeoDataModule_std = Scalar 255"

record trainer =
  training :: bool
  validating :: bool
  testing :: bool
  predicting :: bool

record ('a, 'd, 'p) NonGeoDataModule =
  class_name :: string
  dataset_class :: "'a kwargs \<Rightarrow> 'd"
  batch_size :: int
  num_workers :: int
  kwargs :: "'a kwargs"
  train_dataset :: "'d dataset option"
  val_dataset :: "'d dataset option"
  test_dataset :: "'d dataset option"
  predict_dataset :: "'d dataset option"
  train_batch_size :: "int option"
  val_batch_size :: "int option"
  test_batch_size :: "int option"
  predict_batch_size :: "int option"
  aug :: 'p
  train_aug :: "'p option"
  val_aug :: "'p option"
  test_aug :: "'p option"
  predict_aug :: "'p option"
  trainer :: "trainer option"

text \<open>
  \<^verbatim>\<open>__init__(self, dataset_class, batch_size=1, num_workers=0, **kwargs)\<close>. An argument
  the caller leaves out is \<open>None\<close>: the default applies, and \<^verbatim>\<open>dataset_class\<close>, which
  has no default, raises \<^verbatim>\<open>TypeError\<close>. \<open>cname\<close> is \<^verbatim>\<open>self.__class__.__name__\<close>, and
  \<open>mk_aug\<close> the \<^verbatim>\<open>AugmentationSequential\<close> constructor. The base initialiser of
  \<^verbatim>\<open>LightningDataModule\<close> leaves \<^verbatim>\<open>self.trainer\<close> at \<^verbatim>\<open>None\<close>.
\<close>

definition NonGeoDataModule_init ::
  "(normalize \<Rightarrow> string list \<Rightarrow> 'p) \<Rightarrow> string \<Rightarrow> ('a kwargs \<Rightarrow> 'd) option \<Rightarrow> int option \<Rightarrow>
   int option \<Rightarrow> 'a kwargs \<Rightarrow> error + ('a, 'd, 'p) NonGeoDataModule" where
  "NonGeoDataModule_init mk_aug cname dataset_class_arg batch_size_arg num_workers_arg kw =
     (case dataset_class_arg of
        None \<Rightarrow> Inl (TypeError ''dataset_class'')
      | Some cls \<Rightarrow>
          Inr \<lparr> class_name = cname,
                dataset_class = cls,
                batch_size = (case batch_size_arg of None \<Rightarrow> 1 | Some b \<Rightarrow> b),
                num_workers = (case num_workers_arg of None \<Rightarrow> 0 | Some w \<Rightarrow> w),
                kwargs = kw,
                train_dataset = None, val_dataset = None,
                test_dataset = None, predict_dataset = None,
                train_batch_size = None, val_batch_size = None,
                test_batch_size = None, predict_batch_size = None,
                aug = mk_aug (Normalize NonGeoDataModule_mean NonGeoDataModule_std) [''image''],
                train_aug = None, val_aug = None, test_aug = None, predict_aug = None,
                trainer = None \<rparr>)"

text \<open>
  \<^verbatim>\<open>setup\<close>: an \<^verbatim>\<open>if\<close>/\<^verbatim>\<open>elif\<close>/\<^verbatim>\<open>elif\<close> chain on list membership of the stage string,
  with no \<^verbatim>\<open>else\<close>.
\<close>

definition NonGeoDataModule_setup ::
  "string \<Rightarrow> ('a, 'd, 'p, 'z) NonGeoDataModule_scheme \<Rightarrow>
   ('a, ('a, 'd, 'p, 'z) NonGeoDataModule_scheme) run" where
  "NonGeoDataModule_setup stage self =
     (if stage \<in> set [''fit''] then
        bind_run (construct (dataset_class self) [(''split'', VStr ''train'')] (kwargs self))
          (\<lambda>d. ([], Inr (self\<lparr>train_dataset := Some d\<rparr>)))
      else if stage \<in> set [''fit'', ''validate''] then
        bind_run (construct (dataset_class self) [(''split'', VStr ''val'')] (kwargs self))
          (\<lambda>d. ([], Inr (self\<lparr>val_dataset := Some d\<rparr>)))
      else if stage \<in> set [''test''] then
        bind_run (construct (dataset_class self) [(''split'', VStr ''test'')] (kwargs self))
          (\<lambda>d. ([], Inr (self\<lparr>test_dataset := Some d\<rparr>)))
      else ([], Inr self))"

text \<open>
  \<^verbatim>\<open>len(dataset)\<close>: the length of a built dataset, given by the parameter \<open>len_of\<close>, or
  the number of indices of a subset.
\<close>

fun dataset_len :: "('d \<Rightarrow> nat) \<Rightarrow> 'd dataset \<Rightarrow> int" where
  "dataset_len len_of (Provided d) = int (len_of d)"
| "dataset_len len_of (Subset ds indices) = int (length indices)"

text \<open>
  The loader is the external \<^verbatim>\<open>torch.utils.data.DataLoader\<close>; a loader that was built
  is represented by the four arguments the datamodule hands to the call. The call
  \<^verbatim>\<open>DataLoader(dataset=..., batch_size=..., shuffle=..., num_workers=...)\<close> on a
  map-style dataset checks its arguments in this order and raises \<^verbatim>\<open>ValueError\<close>
  for a negative worker count, when it builds the random sampler of a shuffling loader
  for a dataset with no sample, and when it builds the batch sampler for a batch size
  that is not positive.
\<close>

record 'd DataLoader =
  loader_dataset :: "'d dataset"
  loader_batch_size :: int
  shuffle :: bool
  loader_num_workers :: int

definition DataLoader_init ::
  "('d \<Rightarrow> nat) \<Rightarrow> 'd dataset \<Rightarrow> int \<Rightarrow> bool \<Rightarrow> int \<Rightarrow> error + 'd DataLoader" where
  "DataLoader_init len_of ds bsize shuf workers =
     (if workers < 0 then Inl (ValueError ''num_workers'')
      else if shuf \<and> dataset_len len_of ds \<le> 0 then Inl (ValueError ''num_samples'')
      else if bsize \<le> 0 then Inl (ValueError ''batch_size'')
      else Inr \<lparr> loader_dataset = ds, loader_batch_size = bsize, shuffle = shuf,
                 loader_num_workers = workers \<rparr>)"

text \<open>
  The four loader methods: each returns what the \<^verbatim>\<open>DataLoader\<close> call gives, or
  raises what it raises, when the dataset reference of the method is set, and raises
  \<^verbatim>\<open>MisconfigurationException\<close> when it is \<^verbatim>\<open>None\<close>.
\<close>

definition train_dataloader ::
  "('d \<Rightarrow> nat) \<Rightarrow> ('a, 'd, 'p, 'z) NonGeoDataModule_scheme \<Rightarrow> error + 'd DataLoader" where
  "train_dataloader len_of self =
     (case train_dataset self of
        Some ds \<Rightarrow>
          DataLoader_init len_of ds
            (py_or int_truth (train_batch_size self) (batch_size self))
            True
            (num_workers self)
      | None \<Rightarrow>
          Inl (MisconfigurationException
                 (class_name self @ ''.setup does not define a '' @ quoted ''train_dataset'')))"

definition val_dataloader ::
  "('d \<Rightarrow> nat) \<Rightarrow> ('a, 'd, 'p, 'z) NonGeoDataModule_scheme \<Rightarrow> error + 'd DataLoader" where
  "val_dataloader len_of self =
     (case val_dataset self of
        Some ds \<Rightarrow>
          DataLoader_init len_of ds
            (py_or int_truth (val_batch_size self) (batch_size self))
            False
            (num_workers self)
      | None \<Rightarrow>
          Inl (MisconfigurationException
                 (class_name self @ ''.setup does not define a '' @ quoted ''val_dataset'')))"

definition test_dataloader ::
  "('d \<Rightarrow> nat) \<Rightarrow> ('a, 'd, 'p, 'z) NonGeoDataModule_scheme \<Rightarrow> error + 'd DataLoader" where
  "test_dataloader len_of self =
     (case test_dataset self of
        Some ds \<Rightarrow>
          DataLoader_init len_of ds
            (py_or int_truth (test_batch_size self) (batch_size self))
            False
            (num_workers self)
      | None \<Rightarrow>
          Inl (MisconfigurationException
                 (class_name self @ ''.setup does not define a '' @ quoted ''test_dataset'')))"

definition predict_dataloader ::
  "('d \<Rightarrow> nat) \<Rightarrow> ('a, 'd, 'p, 'z) NonGeoDataModule_scheme \<Rightarrow> error + 'd DataLoader" where
  "predict_dataloader len_of self =
     (case predict_dataset self of
        Some ds \<Rightarrow>
          DataLoader_init len_of ds
            (py_or int_truth (predict_batch_size self) (batch_size self))
            False
            (num_workers self)
      | None \<Rightarrow>
          Inl (MisconfigurationException
                 (class_name self @ ''.setup does not define a '' @ quoted ''predict_dataset'')))"

text \<open>
  \<^verbatim>\<open>on_after_batch_transfer\<close>. The local \<^verbatim>\<open>aug\<close> is bound only in the branch of the
  first true phase flag; the chain has no \<^verbatim>\<open>else\<close>, so with a trainer and no flag it is
  still unbound at \<^verbatim>\<open>aug(batch)\<close>. \<open>truth\<close> is the truth value of a module and \<open>call\<close>
  its application to a batch. \<^verbatim>\<open>dataloader_idx\<close> is not read.
\<close>

definition select_aug ::
  "('p \<Rightarrow> bool) \<Rightarrow> ('a, 'd, 'p, 'z) NonGeoDataModule_scheme \<Rightarrow> trainer \<Rightarrow> 'p option" where
  "select_aug truth self t =
     (if training t then Some (py_or truth (train_aug self) (aug self))
      else if validating t then Some (py_or truth (val_aug self) (aug self))
      else if testing t then Some (py_or truth (test_aug self) (aug self))
      else if predicting t then Some (py_or truth (predict_aug self) (aug self))
      else None)"

definition on_after_batch_transfer ::
  "('p \<Rightarrow> bool) \<Rightarrow> ('p \<Rightarrow> 'b \<Rightarrow> 'b) \<Rightarrow> ('a, 'd, 'p, 'z) NonGeoDataModule_scheme \<Rightarrow> 'b \<Rightarrow> int \<Rightarrow>
   error + 'b" where
  "on_after_batch_transfer truth call self batch dataloader_idx =
     (case trainer self of
        None \<Rightarrow> Inr batch
      | Some t \<Rightarrow>
          (case select_aug truth self t of
             None \<Rightarrow> Inl (UnboundLocalError ''aug'')
           | Some a \<Rightarrow> Inr (call a batch)))"

text \<open>
  The four loader methods and the slots they read, indexed by the loader's stage, to
  state properties of all four at once.
\<close>

datatype loader_stage = Train | Val | Test | Predict

fun dataloader ::
  "('d \<Rightarrow> nat) \<Rightarrow> loader_stage \<Rightarrow> ('a, 'd, 'p, 'z) NonGeoDataModule_scheme \<Rightarrow>
   error + 'd DataLoader" where
  "dataloader len_of Train = train_dataloader len_of"
| "dataloader len_of Val = val_dataloader len_of"
| "dataloader len_of Test = test_dataloader len_of"
| "dataloader len_of Predict = predict_dataloader len_of"

fun dataset_of ::
  "loader_stage \<Rightarrow> ('a, 'd, 'p, 'z) NonGeoDataModule_scheme \<Rightarrow> 'd dataset option" where
  "dataset_of Train = train_dataset"
| "dataset_of Val = val_dataset"
| "dataset_of Test = test_dataset"
| "dataset_of Predict = predict_dataset"

fun stage_batch_size ::
  "loader_stage \<Rightarrow> ('a, 'd, 'p, 'z) NonGeoDataModule_scheme \<Rightarrow> int option" where
  "stage_batch_size Train = train_batch_size"
| "stage_batch_size Val = val_batch_size"
| "stage_batch_size Test = test_batch_size"
| "stage_batch_size Predict = predict_batch_size"

definition is_misconfiguration :: "error + 'r \<Rightarrow> bool" where
  "is_misconfiguration r =
     (case r of Inl (MisconfigurationException _) \<Rightarrow> True | _ \<Rightarrow> False)"

text \<open>A module on which no \<^verbatim>\<open>setup\<close> has run, with an attached trainer or without.\<close>

definition fresh_module :: "(unit, nat, string) NonGeoDataModule" where
  "fresh_module =
     \<lparr> class_name = ''NonGeoDataModule'', dataset_class = (\<lambda>kw. 0),
       batch_size = 1, num_workers = 0, kwargs = Map.empty,
       train_dataset = None, val_dataset = None, test_dataset = None, predict_dataset = None,
       train_batch_size = None, val_batch_size = None,
       test_batch_size = None, predict_batch_size = None,
       aug = ''aug'',
       train_aug = None, val_aug = None, test_aug = None, predict_aug = None,
       trainer = None \<rparr>"

text \<open>
  \<^verbatim>\<open>setup(stage)\<close> followed by a loader request: the error of \<^verbatim>\<open>setup\<close> if it
  raises, else what the loader method returns on the module \<^verbatim>\<open>setup\<close> left.
\<close>

definition setup_then_dataloader ::
  "('d \<Rightarrow> nat) \<Rightarrow> string \<Rightarrow> loader_stage \<Rightarrow> ('a, 'd, 'p, 'z) NonGeoDataModule_scheme \<Rightarrow>
   error + 'd DataLoader" where
  "setup_then_dataloader len_of stage S self =
     (case snd (NonGeoDataModule_setup stage self) of
        Inl e \<Rightarrow> Inl e
      | Inr self' \<Rightarrow> dataloader len_of S self')"

text \<open>
  The stage-specific augmentation slots, and the phase a trainer reports: the flags are
  tested in the order of the \<^verbatim>\<open>if\<close>/\<^verbatim>\<open>elif\<close> chain of
  \<^verbatim>\<open>on_after_batch_transfer\<close>.
\<close>

fun stage_aug ::
  "loader_stage \<Rightarrow> ('a, 'd, 'p, 'z) NonGeoDataModule_scheme \<Rightarrow> 'p option" where
  "stage_aug Train = train_aug"
| "stage_aug Val = val_aug"
| "stage_aug Test = test_aug"
| "stage_aug Predict = predict_aug"

definition reported_phase :: "trainer \<Rightarrow> loader_stage option" where
  "reported_phase t =
     (if training t then Some Train
      else if validating t then Some Val
      else if testing t then Some Test
      else if predicting t then Some Predict
      else None)"

text \<open>
  Example pipelines: a container module (\<^verbatim>\<open>nn.Sequential\<close>) as the list of the names of
  its transforms. Its truth value is that of its length, and calling it on a batch
  applies each transform; a batch is the list of the transforms applied to it.
\<close>

definition sequential_truth :: "string list \<Rightarrow> bool" where
  "sequential_truth p = (length p \<noteq> 0)"

definition sequential_call :: "string list \<Rightarrow> string list \<Rightarrow> string list" where
  "sequential_call p batch = batch @ p"

definition fresh_sequential_module :: "(unit, nat, string list) NonGeoDataModule" where
  "fresh_sequential_module =
     \<lparr> class_name = ''NonGeoDataModule'', dataset_class = (\<lambda>kw. 0),
       batch_size = 1, num_workers = 0, kwargs = Map.empty,
       train_dataset = None, val_dataset = None, test_dataset = None, predict_dataset = None,
       train_batch_size = None, val_batch_size = None,
       test_batch_size = None, predict_batch_size = None,
       aug = [''Normalize''],
       train_aug = None, val_aug = None, test_aug = None, predict_aug = None,
       trainer = None \<rparr>"

definition phase_trainer :: "bool \<Rightarrow> bool \<Rightarrow> bool \<Rightarrow> bool \<Rightarrow> trainer" where
  "phase_trainer tr va te pr =
     \<lparr> training = tr, validating = va, testing = te, predicting = pr \<rparr>"

section \<open>The counting datamodule (cowc.py)\<close>

text \<open>
  \<^verbatim>\<open>COWCCounting\<close> is the dataset class of the sibling package; it is a parameter, as is
  the length \<open>len_of\<close> of the datasets it builds. \<^verbatim>\<open>__init__\<close> hands the class, the
  batch size (default 64), the worker count (default 0) and the configuration bag to the
  base initialiser, which gets \<^verbatim>\<open>dataset_class\<close> twice if the bag has that key, and then
  replaces the augmentation.
\<close>

definition COWCCountingDataModule_init ::
  "(normalize \<Rightarrow> string list \<Rightarrow> 'p) \<Rightarrow> ('a kwargs \<Rightarrow> 'd) \<Rightarrow> int option \<Rightarrow> int option \<Rightarrow>
   'a kwargs \<Rightarrow> error + ('a, 'd, 'p) NonGeoDataModule" where
  "COWCCountingDataModule_init mk_aug COWCCounting batch_size_arg num_workers_arg kw =
     (if \<not> Option.is_none (kw ''dataset_class'') then Inl (TypeError ''dataset_class'')
      else
        case NonGeoDataModule_init mk_aug ''COWCCountingDataModule'' (Some COWCCounting)
               (Some (case batch_size_arg of None \<Rightarrow> 64 | Some b \<Rightarrow> b))
               (Some (case num_workers_arg of None \<Rightarrow> 0 | Some w \<Rightarrow> w)) kw of
          Inl e \<Rightarrow> Inl e
        | Inr self \<Rightarrow> Inr (self\<lparr>aug := mk_aug (Normalize (Scalar 0) (Scalar 255)) [''image'']\<rparr>))"

text \<open>
  The slice \<^verbatim>\<open>xs[i:j]\<close>: a negative bound counts from the end, and both bounds are
  clamped to the list.
\<close>

definition py_slice :: "'x list \<Rightarrow> int \<Rightarrow> int \<Rightarrow> 'x list" where
  "py_slice xs i j =
     (let n = int (length xs);
          lo = (if i < 0 then max (i + n) 0 else min i n);
          hi = (if j < 0 then max (j + n) 0 else min j n)
      in take (nat (hi - lo)) (drop (nat lo) xs))"

text \<open>\<^verbatim>\<open>itertools.accumulate\<close>: the running sums of a list.\<close>

fun accumulate :: "int \<Rightarrow> int list \<Rightarrow> int list" where
  "accumulate acc [] = []"
| "accumulate acc (x # xs) = (acc + x) # accumulate (acc + x) xs"

text \<open>
  \<^verbatim>\<open>torch.utils.data.random_split(dataset, lengths)\<close> on integer lengths. The releases
  of the library differ in one step, so the release is the parameter \<open>fractions\<close>: a
  release that accepts fractions reads lengths that sum to 1 as fractions of the dataset.
  It then raises \<^verbatim>\<open>ValueError\<close> for a length below 0 or above 1, takes
  \<^verbatim>\<open>floor(len(dataset) * frac)\<close> for each length, and adds the remainder
  \<^verbatim>\<open>len(dataset) - sum(subset_lengths)\<close> one by one, to the lengths in turn.
\<close>

definition fraction_lengths :: "int \<Rightarrow> int list \<Rightarrow> error + int list" where
  "fraction_lengths n lengths =
     (if list_ex (\<lambda>frac. frac < 0 \<or> 1 < frac) lengths then Inl (ValueError ''lengths'')
      else
        let subset_lengths = map (\<lambda>frac. n * frac) lengths;
            remainder = n - sum_list subset_lengths
        in Inr (foldl (\<lambda>ls i. ls[i mod length ls := ls ! (i mod length ls) + 1])
                  subset_lengths [0..<nat remainder]))"

text \<open>
  Every release then raises \<^verbatim>\<open>ValueError\<close> unless the lengths sum to the length of
  the dataset, draws one random permutation \<^verbatim>\<open>randperm(sum(lengths))\<close> of the
  indices, and cuts it into consecutive slices \<^verbatim>\<open>indices[offset - length : offset]\<close>,
  one subset for each length. The random generator is the parameter \<open>randperm\<close>.
\<close>

definition random_split ::
  "bool \<Rightarrow> (nat \<Rightarrow> nat list) \<Rightarrow> ('d \<Rightarrow> nat) \<Rightarrow> 'd dataset \<Rightarrow> int list \<Rightarrow>
   error + 'd dataset list" where
  "random_split fractions randperm len_of ds lengths =
     (case (if fractions \<and> sum_list lengths = 1
            then fraction_lengths (dataset_len len_of ds) lengths
            else Inr lengths) of
        Inl e \<Rightarrow> Inl e
      | Inr lengths' \<Rightarrow>
          if sum_list lengths' \<noteq> dataset_len len_of ds
          then Inl (ValueError
                 ''Sum of input lengths does not equal the length of the input dataset!'')
          else
            let indices = randperm (nat (sum_list lengths'))
            in Inr (map (\<lambda>(offset, len). Subset ds (py_slice indices (offset - len) offset))
                      (zip (accumulate 0 lengths') lengths')))"

text \<open>
  \<^verbatim>\<open>setup\<close> ignores the stage: it builds the train and the test split, assigns the test
  dataset, and unpacks the two subsets of the random split of the train split into the
  train and val references. A call that raises gives the error alone: the module it
  leaves behind (with the test reference assigned, when \<^verbatim>\<open>random_split\<close> raises) is
  not part of the result.
\<close>

definition COWCCountingDataModule_setup ::
  "bool \<Rightarrow> (nat \<Rightarrow> nat list) \<Rightarrow> ('d \<Rightarrow> nat) \<Rightarrow> ('a kwargs \<Rightarrow> 'd) \<Rightarrow> string \<Rightarrow>
   ('a, 'd, 'p, 'z) NonGeoDataModule_scheme \<Rightarrow>
   ('a, ('a, 'd, 'p, 'z) NonGeoDataModule_scheme) run" where
  "COWCCountingDataModule_setup fractions randperm len_of COWCCounting stage self =
     bind_run (construct COWCCounting [(''split'', VStr ''train'')] (kwargs self))
       (\<lambda>train_val_dataset.
     bind_run (construct COWCCounting [(''split'', VStr ''test'')] (kwargs self))
       (\<lambda>test.
          case random_split fractions randperm len_of train_val_dataset
                 [dataset_len len_of train_val_dataset - dataset_len len_of test,
                  dataset_len len_of test] of
            Inl e \<Rightarrow> ([], Inl e)
          | Inr [train, val] \<Rightarrow>
              ([], Inr (self\<lparr>test_dataset := Some test, train_dataset := Some train,
                              val_dataset := Some val\<rparr>))
          | Inr _ \<Rightarrow> ([], Inl (ValueError ''unpack''))))"

text \<open>
  A random generator is sound when \<^verbatim>\<open>randperm(n)\<close> is a permutation of the indices
  below \<open>n\<close>; reversing them is one such generator.
\<close>

definition is_randperm :: "(nat \<Rightarrow> nat list) \<Rightarrow> nat \<Rightarrow> bool" where
  "is_randperm randperm n = (distinct (randperm n) \<and> set (randperm n) = {0..<n})"

definition reversed_perm :: "nat \<Rightarrow> nat list" where
  "reversed_perm n = rev [0..<n]"

text \<open>An example dataset class: five training samples and two test samples.\<close>

definition example_counting :: "unit kwargs \<Rightarrow> nat" where
  "example_counting kw = (if kw ''split'' = Some (VStr ''train'') then 5 else 2)"

section \<open>The multi-band datamodule (so2sat.py)\<close>

definition band_means :: "real list" where
  "band_means =
     [0.12375696117681859, 0.1092774636368323, 0.1010855203267882, 0.1142398616114001,
      0.1592656692023089, 0.18147236008771792, 0.1745740312291377, 0.19501607349635292,
      0.15428468872076637, 0.10905050699570007]"

definition band_stds :: "real list" where
  "band_stds =
     [0.03958795985905458, 0.047778262752410296, 0.06636616706371974, 0.06358874912497474,
      0.07744387147984592, 0.09101635085921553, 0.09218466562387101, 0.10164581233948201,
      0.09991773043519253, 0.08780632509122865]"

definition reindex_to_rgb_first :: "nat list" where
  "reindex_to_rgb_first = [2, 1, 0, 3, 4, 5, 6, 7, 8, 9]"

record ('a, 'd, 'p) So2SatDataModule = "('a, 'd, 'p) NonGeoDataModule" +
  band_set :: string
  unsupervised_mode :: bool

text \<open>
  \<^verbatim>\<open>__init__(self, batch_size=64, num_workers=0, band_set="rgb",
  unsupervised_mode=False, **kwargs)\<close> starts with \<^verbatim>\<open>super().__init__()\<close>: the
  initialiser of the base datamodule, called with no argument at all. The assignments
  after it run only if that call returns.
\<close>

definition So2SatDataModule_init ::
  "(normalize \<Rightarrow> string list \<Rightarrow> 'p) \<Rightarrow> int option \<Rightarrow> int option \<Rightarrow> string option \<Rightarrow>
   bool option \<Rightarrow> 'a kwargs \<Rightarrow> error + ('a, 'd, 'p) So2SatDataModule" where
  "So2SatDataModule_init mk_aug batch_size_arg num_workers_arg band_set_arg
     unsupervised_mode_arg kw =
     (case NonGeoDataModule_init mk_aug ''So2SatDataModule'' None None None Map.empty of
        Inl e \<Rightarrow> Inl e
      | Inr self \<Rightarrow>
          Inr ((NonGeoDataModule.extend self
                  (So2SatDataModule.fields
                     (case band_set_arg of None \<Rightarrow> ''rgb'' | Some b \<Rightarrow> b)
                     (case unsupervised_mode_arg of None \<Rightarrow> False | Some u \<Rightarrow> u)))
               \<lparr> batch_size := (case batch_size_arg of None \<Rightarrow> 64 | Some b \<Rightarrow> b),
                 num_workers := (case num_workers_arg of None \<Rightarrow> 0 | Some w \<Rightarrow> w),
                 kwargs := kw,
                 aug := mk_aug (Normalize (Vector band_means) (Vector band_stds))
                          [''image''] \<rparr>))"

text \<open>
  A call \<^verbatim>\<open>cls(k1=v1, k2=v2, **kw)\<close> with several explicit keywords. When the bag has
  more than one of them, the \<^verbatim>\<open>TypeError\<close> names the one that comes first in the bag,
  and a dictionary lists its keys in the order of their insertion, which a map does not
  record: \<open>bag_keys\<close> is \<^verbatim>\<open>list(kw)\<close>, the keys of the bag in that order. (Were a
  key of the bag missing from \<open>bag_keys\<close>, \<open>construct\<close> would still raise for it.)
\<close>

definition construct_ordered ::
  "string list \<Rightarrow> ('a kwargs \<Rightarrow> 'd) \<Rightarrow> (string \<times> 'a kwval) list \<Rightarrow> 'a kwargs \<Rightarrow>
   ('a, 'd dataset) run" where
  "construct_ordered bag_keys cls explicit kw =
     (case filter (\<lambda>k. k \<in> set (map fst explicit))
             (filter (\<lambda>k. \<not> Option.is_none (kw k)) bag_keys) of
        [] \<Rightarrow> construct cls explicit kw
      | k # _ \<Rightarrow> ([], Inl (TypeError k)))"

text \<open>
  \<^verbatim>\<open>setup\<close> reads neither the stage nor \<^verbatim>\<open>band_set\<close> nor \<^verbatim>\<open>unsupervised_mode\<close>. The
  dataset class \<^verbatim>\<open>So2Sat\<close> and its dictionary \<^verbatim>\<open>BAND_SETS\<close> belong to the sibling
  package and are parameters; a key missing from the dictionary raises \<^verbatim>\<open>KeyError\<close>.
\<close>

definition So2SatDataModule_setup ::
  "('a kwargs \<Rightarrow> 'd) \<Rightarrow> (string \<rightharpoonup> string list) \<Rightarrow> string list \<Rightarrow> string option \<Rightarrow>
   ('a, 'd, 'p, 'z) So2SatDataModule_scheme \<Rightarrow>
   ('a, ('a, 'd, 'p, 'z) So2SatDataModule_scheme) run" where
  "So2SatDataModule_setup So2Sat BAND_SETS bag_keys stage self =
     (case BAND_SETS ''s2'' of
        None \<Rightarrow> ([], Inl (KeyError ''s2''))
      | Some bands \<Rightarrow>
          bind_run (construct_ordered bag_keys So2Sat
                      [(''split'', VStr ''train''), (''bands'', VStrs bands)] (kwargs self))
            (\<lambda>train.
          bind_run (construct_ordered bag_keys So2Sat
                      [(''split'', VStr ''validation''), (''bands'', VStrs bands)] (kwargs self))
            (\<lambda>val.
          bind_run (construct_ordered bag_keys So2Sat
                      [(''split'', VStr ''test''), (''bands'', VStrs bands)] (kwargs self))
            (\<lambda>test.
               ([], Inr (self\<lparr>train_dataset := Some train, val_dataset := Some val,
                               test_dataset := Some test\<rparr>))))))"

text \<open>An example module of the multi-band datamodule, as its fields would be set.\<close>

definition example_so2sat :: "(unit, string, string list) So2SatDataModule" where
  "example_so2sat =
     \<lparr> class_name = ''So2SatDataModule'', dataset_class = (\<lambda>kw. []),
       batch_size = 64, num_workers = 0, kwargs = Map.empty,
       train_dataset = None, val_dataset = None, test_dataset = None, predict_dataset = None,
       train_batch_size = None, val_batch_size = None,
       test_batch_size = None, predict_batch_size = None,
       aug = [''Normalize''],
       train_aug = None, val_aug = None, test_aug = None, predict_aug = None,
       trainer = None, band_set = ''s2'', unsupervised_mode = False \<rparr>"

text \<open>
  An example dataset class that names the split it was built for, and a band dictionary
  with three bands under the key \<^verbatim>\<open>s2\<close>.
\<close>

definition example_so2sat_class :: "unit kwargs \<Rightarrow> string" where
  "example_so2sat_class kw = (case kw ''split'' of Some (VStr s) \<Rightarrow> s | _ \<Rightarrow> [])"

definition example_band_sets :: "string \<rightharpoonup> string list" where
  "example_band_sets = [''s2'' \<mapsto> [''B02'', ''B03'', ''B04'']]"

section \<open>Loader methods\<close>

lemma dataloader_cases:
  "dataloader len_of S self =
     (case dataset_of S self of
        Some ds \<Rightarrow>
          DataLoader_init len_of ds
            (py_or int_truth (stage_batch_size S self) (batch_size self))
            (S = Train)
            (num_workers self)
      | None \<Rightarrow> Inl (MisconfigurationException
          (class_name self @ ''.setup does not define a '' @
           quoted (case S of Train \<Rightarrow> ''train_dataset'' | Val \<Rightarrow> ''val_dataset''
                   | Test \<Rightarrow> ''test_dataset'' | Predict \<Rightarrow> ''predict_dataset''))))"
  by (cases S)
     (simp_all add: train_dataloader_def val_dataloader_def test_dataloader_def
        predict_dataloader_def split: option.splits)

lemma DataLoader_init_returns:
  "DataLoader_init len_of ds bsize shuf workers = Inr l \<longleftrightarrow>
     0 \<le> workers \<and> (shuf \<longrightarrow> 0 < dataset_len len_of ds) \<and> 0 < bsize \<and>
     l = \<lparr> loader_dataset = ds, loader_batch_size = bsize, shuffle = shuf,
           loader_num_workers = workers \<rparr>"
  by (auto simp add: DataLoader_init_def)

lemma DataLoader_init_raises:
  "DataLoader_init len_of ds bsize shuf workers = Inl e \<Longrightarrow> \<exists>a. e = ValueError a"
  by (auto simp add: DataLoader_init_def split: if_splits)

lemma DataLoader_init_not_misconfiguration:
  "\<not> is_misconfiguration (DataLoader_init len_of ds bsize shuf workers)"
  by (simp add: DataLoader_init_def is_misconfiguration_def)

lemma dataloader_set:
  "dataset_of S self = Some ds \<Longrightarrow>
   dataloader len_of S self =
     DataLoader_init len_of ds
       (py_or int_truth (stage_batch_size S self) (batch_size self)) (S = Train)
       (num_workers self)"
  by (simp add: dataloader_cases)

lemma dataloader_unset:
  "dataset_of S self = None \<Longrightarrow> is_misconfiguration (dataloader len_of S self)"
  by (simp add: dataloader_cases is_misconfiguration_def)

lemma dataloader_misconfiguration:
  "is_misconfiguration (dataloader len_of S self) \<longleftrightarrow> dataset_of S self = None"
proof (cases "dataset_of S self")
  case None
  then show ?thesis
    by (simp add: dataloader_unset)
next
  case (Some ds)
  then show ?thesis
    by (simp add: dataloader_set DataLoader_init_not_misconfiguration)
qed

text \<open>
  C1, as amended. For each of the four stages, the loader method raises the
  configuration error exactly when the stage's dataset reference is \<^verbatim>\<open>None\<close>. When the
  reference is set, the method gives what the \<^verbatim>\<open>DataLoader\<close> call gives for that
  dataset, the batch size of the stage, the shuffle flag of the stage and the worker
  count: a loader on the dataset exactly when the worker count is not negative, the batch
  size is positive and, for the train loader, the dataset has a sample, and the
  \<^verbatim>\<open>ValueError\<close> of the call otherwise.
\<close>

theorem dataloader_raises_iff_unset:
  "(is_misconfiguration (dataloader len_of S self) \<longleftrightarrow> dataset_of S self = None) \<and>
   (\<forall>ds. dataset_of S self = Some ds \<longrightarrow>
      dataloader len_of S self =
        DataLoader_init len_of ds
          (py_or int_truth (stage_batch_size S self) (batch_size self)) (S = Train)
          (num_workers self) \<and>
      ((\<exists>l. dataloader len_of S self = Inr l \<and> loader_dataset l = ds) \<longleftrightarrow>
         0 \<le> num_workers self \<and>
         0 < py_or int_truth (stage_batch_size S self) (batch_size self) \<and>
         (S = Train \<longrightarrow> 0 < dataset_len len_of ds)) \<and>
      ((\<exists>e. dataloader len_of S self = Inl e) \<longleftrightarrow>
         (\<exists>a. dataloader len_of S self = Inl (ValueError a))))"
proof (intro conjI allI impI)
  show "is_misconfiguration (dataloader len_of S self) \<longleftrightarrow> dataset_of S self = None"
    by (rule dataloader_misconfiguration)
next
  fix ds
  assume ds: "dataset_of S self = Some ds"
  show "dataloader len_of S self =
      DataLoader_init len_of ds
        (py_or int_truth (stage_batch_size S self) (batch_size self)) (S = Train)
        (num_workers self)"
    using ds by (rule dataloader_set)
  show "(\<exists>l. dataloader len_of S self = Inr l \<and> loader_dataset l = ds) \<longleftrightarrow>
      0 \<le> num_workers self \<and>
      0 < py_or int_truth (stage_batch_size S self) (batch_size self) \<and>
      (S = Train \<longrightarrow> 0 < dataset_len len_of ds)"
    unfolding dataloader_set [OF ds] DataLoader_init_returns by auto
  show "(\<exists>e. dataloader len_of S self = Inl e) \<longleftrightarrow>
      (\<exists>a. dataloader len_of S self = Inl (ValueError a))"
    unfolding dataloader_set [OF ds] using DataLoader_init_raises by blast
qed

lemma loader_example:
  "dataset_of Val (fresh_module\<lparr>val_dataset := Some (Provided 7)\<rparr>) = Some (Provided 7)"
  "dataset_of Test (fresh_module\<lparr>val_dataset := Some (Provided 7)\<rparr>) = None"
  "num_workers (fresh_module\<lparr>val_dataset := Some (Provided 7)\<rparr>) = 0"
  "py_or int_truth (stage_batch_size Val (fresh_module\<lparr>val_dataset := Some (Provided 7)\<rparr>))
     (batch_size (fresh_module\<lparr>val_dataset := Some (Provided 7)\<rparr>)) = 1"
  by (simp_all add: fresh_module_def py_or_def)

theorem dataloader_raises_iff_unset_witness:
  "dataset_of Val (fresh_module\<lparr>val_dataset := Some (Provided 7)\<rparr>) = Some (Provided 7) \<and>
   dataloader id Val (fresh_module\<lparr>val_dataset := Some (Provided 7)\<rparr>) =
     Inr \<lparr> loader_dataset = Provided 7, loader_batch_size = 1, shuffle = False,
           loader_num_workers = 0 \<rparr> \<and>
   dataset_of Test (fresh_module\<lparr>val_dataset := Some (Provided 7)\<rparr>) = None \<and>
   is_misconfiguration (dataloader id Test (fresh_module\<lparr>val_dataset := Some (Provided 7)\<rparr>))"
proof -
  note v = dataloader_raises_iff_unset [of id Val "fresh_module\<lparr>val_dataset := Some (Provided 7)\<rparr>"]
  note t = dataloader_raises_iff_unset [of id Test "fresh_module\<lparr>val_dataset := Some (Provided 7)\<rparr>"]
  have "dataloader id Val (fresh_module\<lparr>val_dataset := Some (Provided 7)\<rparr>) =
      DataLoader_init id (Provided 7)
        (py_or int_truth (stage_batch_size Val (fresh_module\<lparr>val_dataset := Some (Provided 7)\<rparr>))
           (batch_size (fresh_module\<lparr>val_dataset := Some (Provided 7)\<rparr>)))
        (Val = Train) (num_workers (fresh_module\<lparr>val_dataset := Some (Provided 7)\<rparr>))"
    using v [THEN conjunct2, rule_format, OF loader_example(1), THEN conjunct1] .
  then have a: "dataloader id Val (fresh_module\<lparr>val_dataset := Some (Provided 7)\<rparr>) =
     Inr \<lparr> loader_dataset = Provided 7, loader_batch_size = 1, shuffle = False,
           loader_num_workers = 0 \<rparr>"
    unfolding loader_example by (simp add: DataLoader_init_def)
  have b: "is_misconfiguration
      (dataloader id Test (fresh_module\<lparr>val_dataset := Some (Provided 7)\<rparr>))"
    using t [THEN conjunct1] loader_example(2) by (rule iffD2)
  from loader_example(1) a loader_example(2) b show ?thesis
    by (intro conjI)
qed

text \<open>
  The claim as stated fails where the reference is set and the \<^verbatim>\<open>DataLoader\<close> call
  rejects an argument: a module with a val dataset of three samples and the global batch
  size 0 raises \<^verbatim>\<open>ValueError\<close> in \<^verbatim>\<open>val_dataloader\<close>, and a module with an empty
  train dataset raises it in \<^verbatim>\<open>train_dataloader\<close>.
\<close>

theorem dataloader_raises_iff_unset_counterexample:
  "dataset_of Val (fresh_module\<lparr>val_dataset := Some (Provided 3), batch_size := 0\<rparr>) =
     Some (Provided 3) \<and>
   dataloader id Val (fresh_module\<lparr>val_dataset := Some (Provided 3), batch_size := 0\<rparr>) =
     Inl (ValueError ''batch_size'') \<and>
   dataset_of Train (fresh_module\<lparr>train_dataset := Some (Provided 0)\<rparr>) = Some (Provided 0) \<and>
   dataloader id Train (fresh_module\<lparr>train_dataset := Some (Provided 0)\<rparr>) =
     Inl (ValueError ''num_samples'')"
  by (simp add: val_dataloader_def train_dataloader_def DataLoader_init_def fresh_module_def
      py_or_def)

text \<open>
  C7. Every loader a loader method constructs has \<^verbatim>\<open>shuffle=True\<close> exactly when the
  method is the train one; the val, test and predict loaders have \<^verbatim>\<open>shuffle=False\<close>.
\<close>

theorem loader_shuffle_iff_train:
  "dataloader len_of S self = Inr l \<Longrightarrow> shuffle l = (S = Train)"
  by (auto simp add: dataloader_cases DataLoader_init_returns split: option.splits)

theorem loader_shuffle_iff_train_witness:
  "dataloader id Train (fresh_module\<lparr>train_dataset := Some (Provided 3)\<rparr>) =
     Inr \<lparr> loader_dataset = Provided 3, loader_batch_size = 1, shuffle = True,
           loader_num_workers = 0 \<rparr> \<and>
   dataloader id Predict (fresh_module\<lparr>predict_dataset := Some (Provided 3)\<rparr>) =
     Inr \<lparr> loader_dataset = Provided 3, loader_batch_size = 1, shuffle = False,
           loader_num_workers = 0 \<rparr>"
proof -
  have tr: "dataloader id Train (fresh_module\<lparr>train_dataset := Some (Provided 3)\<rparr>) =
     Inr \<lparr> loader_dataset = Provided 3, loader_batch_size = 1, shuffle = True,
           loader_num_workers = 0 \<rparr>"
    by (simp add: train_dataloader_def DataLoader_init_def fresh_module_def py_or_def)
  have pr: "dataloader id Predict (fresh_module\<lparr>predict_dataset := Some (Provided 3)\<rparr>) =
     Inr \<lparr> loader_dataset = Provided 3, loader_batch_size = 1, shuffle = False,
           loader_num_workers = 0 \<rparr>"
    by (simp add: predict_dataloader_def DataLoader_init_def fresh_module_def py_or_def)
  from loader_shuffle_iff_train [OF tr] loader_shuffle_iff_train [OF pr] tr pr
  show ?thesis by simp
qed

text \<open>
  C8. The loader for a stage gets the stage-specific batch size when that override is
  set to a positive integer, and the global \<^verbatim>\<open>batch_size\<close> when the override is
  \<^verbatim>\<open>None\<close>; an override of 0 is false and gives the global batch size as well.
\<close>

theorem loader_batch_size_override:
  assumes "dataloader len_of S self = Inr l"
  shows "(\<forall>n. stage_batch_size S self = Some n \<and> 0 < n \<longrightarrow> loader_batch_size l = n) \<and>
         (stage_batch_size S self = None \<longrightarrow> loader_batch_size l = batch_size self) \<and>
         (stage_batch_size S self = Some 0 \<longrightarrow> loader_batch_size l = batch_size self)"
  using assms
  by (auto simp add: dataloader_cases DataLoader_init_returns py_or_def int_truth_def
      split: option.splits)

theorem loader_batch_size_override_witness:
  "dataloader id Val (fresh_module\<lparr>val_dataset := Some (Provided 3), val_batch_size := Some 16\<rparr>) =
     Inr \<lparr> loader_dataset = Provided 3, loader_batch_size = 16, shuffle = False,
           loader_num_workers = 0 \<rparr> \<and>
   dataloader id Test (fresh_module\<lparr>test_dataset := Some (Provided 3), batch_size := 8\<rparr>) =
     Inr \<lparr> loader_dataset = Provided 3, loader_batch_size = 8, shuffle = False,
           loader_num_workers = 0 \<rparr> \<and>
   dataloader id Train (fresh_module\<lparr>train_dataset := Some (Provided 3), batch_size := 8,
       train_batch_size := Some 0\<rparr>) =
     Inr \<lparr> loader_dataset = Provided 3, loader_batch_size = 8, shuffle = True,
           loader_num_workers = 0 \<rparr>"
proof -
  have va: "dataloader id Val
      (fresh_module\<lparr>val_dataset := Some (Provided 3), val_batch_size := Some 16\<rparr>) =
     Inr \<lparr> loader_dataset = Provided 3, loader_batch_size = 16, shuffle = False,
           loader_num_workers = 0 \<rparr>"
    by (simp add: val_dataloader_def DataLoader_init_def fresh_module_def py_or_def
        int_truth_def)
  have te: "dataloader id Test (fresh_module\<lparr>test_dataset := Some (Provided 3), batch_size := 8\<rparr>) =
     Inr \<lparr> loader_dataset = Provided 3, loader_batch_size = 8, shuffle = False,
           loader_num_workers = 0 \<rparr>"
    by (simp add: test_dataloader_def DataLoader_init_def fresh_module_def py_or_def
        int_truth_def)
  have tr: "dataloader id Train (fresh_module\<lparr>train_dataset := Some (Provided 3), batch_size := 8,
       train_batch_size := Some 0\<rparr>) =
     Inr \<lparr> loader_dataset = Provided 3, loader_batch_size = 8, shuffle = True,
           loader_num_workers = 0 \<rparr>"
    by (simp add: train_dataloader_def DataLoader_init_def fresh_module_def py_or_def
        int_truth_def)
  from loader_batch_size_override [OF va] loader_batch_size_override [OF te]
    loader_batch_size_override [OF tr] va te tr
  show ?thesis by simp
qed

section \<open>Setup of the base datamodule\<close>

lemma construct_split:
  "construct cls [(''split'', v)] kw =
     (if kw ''split'' = None
      then ([kw(''split'' \<mapsto> v)], Inr (Provided (cls (kw(''split'' \<mapsto> v)))))
      else ([], Inl (TypeError ''split'')))"
  by (simp add: construct_def Option.is_none_def)

lemma setup_fit:
  "NonGeoDataModule_setup ''fit'' self =
     (if kwargs self ''split'' = None
      then ([(kwargs self)(''split'' \<mapsto> VStr ''train'')],
            Inr (self\<lparr>train_dataset :=
              Some (Provided (dataset_class self ((kwargs self)(''split'' \<mapsto> VStr ''train''))))\<rparr>))
      else ([], Inl (TypeError ''split'')))"
  by (simp add: NonGeoDataModule_setup_def construct_split bind_run_def)

lemma setup_validate:
  "NonGeoDataModule_setup ''validate'' self =
     (if kwargs self ''split'' = None
      then ([(kwargs self)(''split'' \<mapsto> VStr ''val'')],
            Inr (self\<lparr>val_dataset :=
              Some (Provided (dataset_class self ((kwargs self)(''split'' \<mapsto> VStr ''val''))))\<rparr>))
      else ([], Inl (TypeError ''split'')))"
  by (simp add: NonGeoDataModule_setup_def construct_split bind_run_def)

lemma setup_test:
  "NonGeoDataModule_setup ''test'' self =
     (if kwargs self ''split'' = None
      then ([(kwargs self)(''split'' \<mapsto> VStr ''test'')],
            Inr (self\<lparr>test_dataset :=
              Some (Provided (dataset_class self ((kwargs self)(''split'' \<mapsto> VStr ''test''))))\<rparr>))
      else ([], Inl (TypeError ''split'')))"
  by (simp add: NonGeoDataModule_setup_def construct_split bind_run_def)

lemma setup_other:
  "stage \<noteq> ''fit'' \<Longrightarrow> stage \<noteq> ''validate'' \<Longrightarrow> stage \<noteq> ''test'' \<Longrightarrow>
   NonGeoDataModule_setup stage self = ([], Inr self)"
  by (simp add: NonGeoDataModule_setup_def)

lemma setup_predict: "NonGeoDataModule_setup ''predict'' self = ([], Inr self)"
  by (rule setup_other) simp_all

lemma setup_returned:
  assumes "(stage, S, split) \<in>
      set [(''fit'', Train, ''train''), (''validate'', Val, ''val''), (''test'', Test, ''test'')]"
    and "NonGeoDataModule_setup stage self = (calls, Inr self')"
  shows "dataset_of S self' =
      Some (Provided (dataset_class self ((kwargs self)(''split'' \<mapsto> VStr split))))"
    and "stage_batch_size S self' = stage_batch_size S self"
    and "batch_size self' = batch_size self"
    and "num_workers self' = num_workers self"
    and "calls = [(kwargs self)(''split'' \<mapsto> VStr split)]"
  using assms
  by (auto simp add: setup_fit setup_validate setup_test split: if_splits)

lemma setup_then_loader:
  assumes "(stage, S, split) \<in>
      set [(''fit'', Train, ''train''), (''validate'', Val, ''val''), (''test'', Test, ''test'')]"
    and "NonGeoDataModule_setup stage self = (calls, Inr self')"
  shows "dataloader len_of S self' =
      DataLoader_init len_of
        (Provided (dataset_class self ((kwargs self)(''split'' \<mapsto> VStr split))))
        (py_or int_truth (stage_batch_size S self) (batch_size self)) (S = Train)
        (num_workers self)"
  unfolding dataloader_set [OF setup_returned(1) [OF assms]]
  by (simp only: setup_returned(2,3,4) [OF assms])

lemma setup_raises:
  "stage \<in> set [''fit'', ''validate'', ''test''] \<Longrightarrow> kwargs self ''split'' \<noteq> None \<Longrightarrow>
   NonGeoDataModule_setup stage self = ([], Inl (TypeError ''split''))"
  by (auto simp add: setup_fit setup_validate setup_test)

text \<open>
  C2, as amended. Whenever \<^verbatim>\<open>setup('fit')\<close>, \<^verbatim>\<open>setup('validate')\<close> or
  \<^verbatim>\<open>setup('test')\<close> returns, it made one construction, with the split \<^verbatim>\<open>train\<close>,
  \<^verbatim>\<open>val\<close> or \<^verbatim>\<open>test\<close> merged into the configuration bag, and the train, val or test
  reference holds the dataset built. The matching loader request on the module it leaves
  does not raise the configuration error: it gives what the \<^verbatim>\<open>DataLoader\<close> call gives
  for that dataset, a loader exactly when the worker count is not negative, the batch size
  is positive and, for the train loader, the dataset has a sample. With a \<^verbatim>\<open>split\<close> key
  in the bag these three calls of \<^verbatim>\<open>setup\<close> raise \<^verbatim>\<open>TypeError\<close>.
  \<^verbatim>\<open>setup('predict')\<close> constructs nothing and returns the module unchanged, so the
  predict loader request afterwards does what it did before: it raises the configuration
  error exactly when the predict reference was not set by other means.
\<close>

theorem setup_populates_stage:
  "(\<forall>stage S split calls self'.
      (stage, S, split) \<in>
        set [(''fit'', Train, ''train''), (''validate'', Val, ''val''),
             (''test'', Test, ''test'')] \<and>
      NonGeoDataModule_setup stage self = (calls, Inr self') \<longrightarrow>
        calls = [(kwargs self)(''split'' \<mapsto> VStr split)] \<and>
        dataset_of S self' =
          Some (Provided (dataset_class self ((kwargs self)(''split'' \<mapsto> VStr split)))) \<and>
        \<not> is_misconfiguration (dataloader len_of S self') \<and>
        dataloader len_of S self' =
          DataLoader_init len_of
            (Provided (dataset_class self ((kwargs self)(''split'' \<mapsto> VStr split))))
            (py_or int_truth (stage_batch_size S self) (batch_size self)) (S = Train)
            (num_workers self) \<and>
        ((\<exists>l. dataloader len_of S self' = Inr l) \<longleftrightarrow>
           0 \<le> num_workers self \<and>
           0 < py_or int_truth (stage_batch_size S self) (batch_size self) \<and>
           (S = Train \<longrightarrow>
              0 < len_of (dataset_class self ((kwargs self)(''split'' \<mapsto> VStr split)))))) \<and>
   (\<forall>stage. stage \<in> set [''fit'', ''validate'', ''test''] \<and> kwargs self ''split'' \<noteq> None \<longrightarrow>
      NonGeoDataModule_setup stage self = ([], Inl (TypeError ''split''))) \<and>
   NonGeoDataModule_setup ''predict'' self = ([], Inr self) \<and>
   setup_then_dataloader len_of ''predict'' Predict self = predict_dataloader len_of self \<and>
   (is_misconfiguration (setup_then_dataloader len_of ''predict'' Predict self) \<longleftrightarrow>
      predict_dataset self = None)"
proof (intro conjI allI impI; (elim conjE)?)
  fix stage S split calls self'
  assume m: "(stage, S, split) \<in>
      set [(''fit'', Train, ''train''), (''validate'', Val, ''val''), (''test'', Test, ''test'')]"
    and r: "NonGeoDataModule_setup stage self = (calls, Inr self')"
  show "calls = [(kwargs self)(''split'' \<mapsto> VStr split)]"
    using m r by (rule setup_returned(5))
  show "dataset_of S self' =
      Some (Provided (dataset_class self ((kwargs self)(''split'' \<mapsto> VStr split))))"
    using m r by (rule setup_returned(1))
  show "\<not> is_misconfiguration (dataloader len_of S self')"
    unfolding setup_then_loader [OF m r] by (rule DataLoader_init_not_misconfiguration)
  show "dataloader len_of S self' =
      DataLoader_init len_of
        (Provided (dataset_class self ((kwargs self)(''split'' \<mapsto> VStr split))))
        (py_or int_truth (stage_batch_size S self) (batch_size self)) (S = Train)
        (num_workers self)"
    using m r by (rule setup_then_loader)
  show "(\<exists>l. dataloader len_of S self' = Inr l) \<longleftrightarrow>
      0 \<le> num_workers self \<and>
      0 < py_or int_truth (stage_batch_size S self) (batch_size self) \<and>
      (S = Train \<longrightarrow>
         0 < len_of (dataset_class self ((kwargs self)(''split'' \<mapsto> VStr split))))"
    unfolding setup_then_loader [OF m r] DataLoader_init_returns by auto
next
  fix stage
  assume "stage \<in> set [''fit'', ''validate'', ''test'']" and "kwargs self ''split'' \<noteq> None"
  then show "NonGeoDataModule_setup stage self = ([], Inl (TypeError ''split''))"
    by (rule setup_raises)
next
  show "NonGeoDataModule_setup ''predict'' self = ([], Inr self)"
    by (rule setup_predict)
  show p: "setup_then_dataloader len_of ''predict'' Predict self = predict_dataloader len_of self"
    by (simp add: setup_then_dataloader_def setup_predict)
  from dataloader_misconfiguration [of len_of Predict self]
  show "is_misconfiguration (setup_then_dataloader len_of ''predict'' Predict self) \<longleftrightarrow>
      predict_dataset self = None"
    unfolding p by simp
qed

lemma setup_example:
  "NonGeoDataModule_setup ''validate'' fresh_module =
     ([[''split'' \<mapsto> VStr ''val'']], Inr (fresh_module\<lparr>val_dataset := Some (Provided 0)\<rparr>))"
  "dataset_class fresh_module [''split'' \<mapsto> VStr ''val''] = 0"
  "kwargs fresh_module = Map.empty"
  "py_or int_truth (stage_batch_size Val fresh_module) (batch_size fresh_module) = 1"
  "num_workers fresh_module = 0"
  by (simp_all add: setup_validate fresh_module_def py_or_def)

theorem setup_populates_stage_witness:
  "(''validate'', Val, ''val'') \<in>
     set [(''fit'', Train, ''train''), (''validate'', Val, ''val''), (''test'', Test, ''test'')] \<and>
   NonGeoDataModule_setup ''validate'' fresh_module =
     ([[''split'' \<mapsto> VStr ''val'']], Inr (fresh_module\<lparr>val_dataset := Some (Provided 0)\<rparr>)) \<and>
   dataset_of Val (fresh_module\<lparr>val_dataset := Some (Provided 0)\<rparr>) = Some (Provided 0) \<and>
   dataloader id Val (fresh_module\<lparr>val_dataset := Some (Provided 0)\<rparr>) =
     Inr \<lparr> loader_dataset = Provided 0, loader_batch_size = 1, shuffle = False,
           loader_num_workers = 0 \<rparr>"
proof -
  have m: "(''validate'', Val, ''val'') \<in>
     set [(''fit'', Train, ''train''), (''validate'', Val, ''val''), (''test'', Test, ''test'')]"
    by simp
  note t = setup_populates_stage [where self = fresh_module and len_of = id,
      THEN conjunct1, rule_format, OF conjI, OF m setup_example(1)]
  have d: "dataset_of Val (fresh_module\<lparr>val_dataset := Some (Provided 0)\<rparr>) = Some (Provided 0)"
    using t [THEN conjunct2, THEN conjunct1] by (simp only: setup_example(2,3))
  have "dataloader id Val (fresh_module\<lparr>val_dataset := Some (Provided 0)\<rparr>) =
      DataLoader_init id
        (Provided (dataset_class fresh_module ((kwargs fresh_module)(''split'' \<mapsto> VStr ''val''))))
        (py_or int_truth (stage_batch_size Val fresh_module) (batch_size fresh_module))
        (Val = Train) (num_workers fresh_module)"
    using t [THEN conjunct2, THEN conjunct2, THEN conjunct2, THEN conjunct1] .
  then have l: "dataloader id Val (fresh_module\<lparr>val_dataset := Some (Provided 0)\<rparr>) =
     Inr \<lparr> loader_dataset = Provided 0, loader_batch_size = 1, shuffle = False,
           loader_num_workers = 0 \<rparr>"
    unfolding setup_example by (simp add: DataLoader_init_def)
  from m setup_example(1) d l show ?thesis
    by (intro conjI)
qed

text \<open>
  The claim as stated fails: on a module without datasets, the predict loader raises the
  configuration error after \<^verbatim>\<open>setup('predict')\<close>, and the val loader raises it after
  \<^verbatim>\<open>setup('fit')\<close>.
\<close>

theorem setup_populates_stage_counterexample:
  "NonGeoDataModule_setup ''predict'' fresh_module = ([], Inr fresh_module) \<and>
   setup_then_dataloader id ''predict'' Predict fresh_module =
     Inl (MisconfigurationException
       (''NonGeoDataModule.setup does not define a '' @ quoted ''predict_dataset'')) \<and>
   setup_then_dataloader id ''fit'' Val fresh_module =
     Inl (MisconfigurationException
       (''NonGeoDataModule.setup does not define a '' @ quoted ''val_dataset''))"
  by (simp add: setup_then_dataloader_def setup_fit setup_other
      predict_dataloader_def val_dataloader_def fresh_module_def)

text \<open>
  C3. \<^verbatim>\<open>setup('fit')\<close> makes one construction, with \<^verbatim>\<open>split="train"\<close> merged into the
  configuration bag, and assigns its result to the train reference only: the val, test
  and predict references are those of the module before the call, and no construction
  with another split is made. With a \<^verbatim>\<open>split\<close> key in the bag the call raises
  \<^verbatim>\<open>TypeError\<close> before constructing anything.
\<close>

theorem setup_fit_only_train:
  "(kwargs self ''split'' = None \<longrightarrow>
      NonGeoDataModule_setup ''fit'' self =
        ([(kwargs self)(''split'' \<mapsto> VStr ''train'')],
         Inr (self\<lparr>train_dataset :=
           Some (Provided (dataset_class self ((kwargs self)(''split'' \<mapsto> VStr ''train''))))\<rparr>))) \<and>
   (kwargs self ''split'' \<noteq> None \<longrightarrow>
      NonGeoDataModule_setup ''fit'' self = ([], Inl (TypeError ''split''))) \<and>
   (\<forall>calls self'. NonGeoDataModule_setup ''fit'' self = (calls, Inr self') \<longrightarrow>
      val_dataset self' = val_dataset self \<and>
      test_dataset self' = test_dataset self \<and>
      predict_dataset self' = predict_dataset self \<and>
      (\<forall>kw \<in> set calls. kw ''split'' = Some (VStr ''train'')))"
  by (auto simp add: setup_fit split: if_splits)

theorem setup_fit_only_train_witness:
  "kwargs fresh_module ''split'' = None \<and>
   NonGeoDataModule_setup ''fit'' fresh_module =
     ([[''split'' \<mapsto> VStr ''train'']],
      Inr (fresh_module\<lparr>train_dataset := Some (Provided 0)\<rparr>)) \<and>
   val_dataset (fresh_module\<lparr>train_dataset := Some (Provided 0)\<rparr>) = None \<and>
   kwargs (fresh_module\<lparr>kwargs := [''split'' \<mapsto> VStr ''val'']\<rparr>) ''split'' \<noteq> None \<and>
   NonGeoDataModule_setup ''fit'' (fresh_module\<lparr>kwargs := [''split'' \<mapsto> VStr ''val'']\<rparr>) =
     ([], Inl (TypeError ''split''))"
proof -
  have k: "kwargs fresh_module = Map.empty" and d: "\<And>x. dataset_class fresh_module x = 0"
    and v: "val_dataset fresh_module = None"
    by (simp_all add: fresh_module_def)
  have h1: "kwargs fresh_module ''split'' = None"
    by (simp add: k)
  have h2: "kwargs (fresh_module\<lparr>kwargs := [''split'' \<mapsto> VStr ''val'']\<rparr>) ''split'' \<noteq> None"
    by simp
  have a: "NonGeoDataModule_setup ''fit'' fresh_module =
     ([(kwargs fresh_module)(''split'' \<mapsto> VStr ''train'')],
      Inr (fresh_module\<lparr>train_dataset := Some (Provided (dataset_class fresh_module
        ((kwargs fresh_module)(''split'' \<mapsto> VStr ''train''))))\<rparr>))"
    using setup_fit_only_train [of fresh_module, THEN conjunct1] h1 by (rule mp)
  have b: "NonGeoDataModule_setup ''fit''
      (fresh_module\<lparr>kwargs := [''split'' \<mapsto> VStr ''val'']\<rparr>) = ([], Inl (TypeError ''split''))"
    using setup_fit_only_train [of "fresh_module\<lparr>kwargs := [''split'' \<mapsto> VStr ''val'']\<rparr>",
        THEN conjunct2, THEN conjunct1] h2 by (rule mp)
  from a have a': "NonGeoDataModule_setup ''fit'' fresh_module =
     ([[''split'' \<mapsto> VStr ''train'']],
      Inr (fresh_module\<lparr>train_dataset := Some (Provided 0)\<rparr>))"
    by (simp only: k d)
  from h1 a' b h2 v show ?thesis by simp
qed

section \<open>Augmentation dispatch\<close>

lemma select_aug_reported:
  "select_aug truth self t =
     map_option (\<lambda>P. py_or truth (stage_aug P self) (aug self)) (reported_phase t)"
  by (simp add: select_aug_def reported_phase_def)

lemma on_after_batch_transfer_phase:
  "trainer self = Some t \<Longrightarrow> reported_phase t = Some P \<Longrightarrow>
   on_after_batch_transfer truth call self batch idx =
     Inr (call (py_or truth (stage_aug P self) (aug self)) batch)"
  by (simp add: on_after_batch_transfer_def select_aug_reported)

text \<open>
  C4, as amended. With a trainer attached that reports phase P (the first true flag in
  the order training, validating, testing, predicting), \<^verbatim>\<open>on_after_batch_transfer\<close>
  applies the P-specific pipeline when it is set and true as a Python object, and the
  module-level \<^verbatim>\<open>aug\<close> when the P-specific one is \<^verbatim>\<open>None\<close> or is false (an empty
  container module); it returns the result of the pipeline it applied.
\<close>

theorem aug_dispatch:
  assumes "trainer self = Some t" and "reported_phase t = Some P"
  shows "(\<forall>a. stage_aug P self = Some a \<and> truth a \<longrightarrow>
            on_after_batch_transfer truth call self batch idx = Inr (call a batch)) \<and>
         (stage_aug P self = None \<longrightarrow>
            on_after_batch_transfer truth call self batch idx = Inr (call (aug self) batch)) \<and>
         (\<forall>a. stage_aug P self = Some a \<and> \<not> truth a \<longrightarrow>
            on_after_batch_transfer truth call self batch idx = Inr (call (aug self) batch))"
  by (simp add: on_after_batch_transfer_phase [OF assms] py_or_def)

lemma validating_example:
  "trainer (fresh_sequential_module\<lparr>train_aug := Some [''Flip''], test_aug := Some [''Crop''],
      trainer := Some (phase_trainer False True False False)\<rparr>) =
     Some (phase_trainer False True False False)"
  "reported_phase (phase_trainer False True False False) = Some Val"
  "stage_aug Val (fresh_sequential_module\<lparr>train_aug := Some [''Flip''],
      test_aug := Some [''Crop''],
      trainer := Some (phase_trainer False True False False)\<rparr>) = None"
  "aug (fresh_sequential_module\<lparr>train_aug := Some [''Flip''], test_aug := Some [''Crop''],
      trainer := Some (phase_trainer False True False False)\<rparr>) = [''Normalize'']"
  by (simp_all add: fresh_sequential_module_def phase_trainer_def reported_phase_def)

theorem aug_dispatch_witness:
  "on_after_batch_transfer sequential_truth sequential_call
     (fresh_sequential_module\<lparr>train_aug := Some [''Flip''], test_aug := Some [''Crop''],
        trainer := Some (phase_trainer False True False False)\<rparr>) [] 0 =
   Inr [''Normalize'']"
proof -
  note t = aug_dispatch [OF validating_example(1) validating_example(2),
      of sequential_truth sequential_call "[]" 0]
  from t [THEN conjunct2, THEN conjunct1] validating_example(3)
  have "on_after_batch_transfer sequential_truth sequential_call
     (fresh_sequential_module\<lparr>train_aug := Some [''Flip''], test_aug := Some [''Crop''],
        trainer := Some (phase_trainer False True False False)\<rparr>) [] 0 =
     Inr (sequential_call (aug (fresh_sequential_module\<lparr>train_aug := Some [''Flip''],
        test_aug := Some [''Crop''],
        trainer := Some (phase_trainer False True False False)\<rparr>)) [])"
    by (rule mp)
  then show ?thesis
    by (simp only: validating_example(4) sequential_call_def append_Nil)
qed

text \<open>
  The claim as stated fails for a pipeline that is set but false: while training, with
  \<^verbatim>\<open>train_aug\<close> an empty container, the module-level pipeline is applied to the batch
  and not \<^verbatim>\<open>train_aug\<close>, which would leave the batch as it is.
\<close>

theorem aug_dispatch_counterexample:
  "stage_aug Train (fresh_sequential_module\<lparr>train_aug := Some [],
      trainer := Some (phase_trainer True False False False)\<rparr>) = Some [] \<and>
   on_after_batch_transfer sequential_truth sequential_call
     (fresh_sequential_module\<lparr>train_aug := Some [],
        trainer := Some (phase_trainer True False False False)\<rparr>) [] 0 =
     Inr [''Normalize''] \<and>
   sequential_call [] [] = [] \<and>
   on_after_batch_transfer sequential_truth sequential_call
     (fresh_sequential_module\<lparr>train_aug := Some [],
        trainer := Some (phase_trainer True False False False)\<rparr>) [] 0 \<noteq>
     Inr (sequential_call [] [])"
  by (simp add: on_after_batch_transfer_def select_aug_def py_or_def sequential_truth_def
      sequential_call_def fresh_sequential_module_def phase_trainer_def)

text \<open>
  C10. Without a trainer \<^verbatim>\<open>on_after_batch_transfer\<close> returns the batch unchanged; with a
  trainer whose four phase flags are all false it raises \<^verbatim>\<open>UnboundLocalError\<close> for
  \<^verbatim>\<open>aug\<close>; and it returns a batch exactly when there is no trainer or the trainer
  reports one of the four phases.
\<close>

theorem unbound_aug:
  "(trainer self = None \<longrightarrow>
      on_after_batch_transfer truth call self batch idx = Inr batch) \<and>
   (\<forall>t. trainer self = Some t \<and> \<not> training t \<and> \<not> validating t \<and> \<not> testing t \<and>
        \<not> predicting t \<longrightarrow>
      on_after_batch_transfer truth call self batch idx = Inl (UnboundLocalError ''aug'')) \<and>
   ((\<exists>b. on_after_batch_transfer truth call self batch idx = Inr b) \<longleftrightarrow>
      (trainer self = None \<or>
       (\<exists>t. trainer self = Some t \<and>
            (training t \<or> validating t \<or> testing t \<or> predicting t))))"
  by (cases "trainer self")
     (auto simp add: on_after_batch_transfer_def select_aug_def)

lemma sanity_example:
  "trainer (fresh_sequential_module\<lparr>trainer := Some (phase_trainer False False False False)\<rparr>) =
     Some (phase_trainer False False False False)"
  "\<not> training (phase_trainer False False False False)"
  "\<not> validating (phase_trainer False False False False)"
  "\<not> testing (phase_trainer False False False False)"
  "\<not> predicting (phase_trainer False False False False)"
  "trainer fresh_sequential_module = None"
  by (simp_all add: fresh_sequential_module_def phase_trainer_def)

theorem unbound_aug_witness:
  "on_after_batch_transfer sequential_truth sequential_call
     (fresh_sequential_module\<lparr>trainer := Some (phase_trainer False False False False)\<rparr>)
     [''raw''] 0 = Inl (UnboundLocalError ''aug'') \<and>
   on_after_batch_transfer sequential_truth sequential_call fresh_sequential_module
     [''raw''] 0 = Inr [''raw'']"
proof -
  have a: "on_after_batch_transfer sequential_truth sequential_call
     (fresh_sequential_module\<lparr>trainer := Some (phase_trainer False False False False)\<rparr>)
     [''raw''] 0 = Inl (UnboundLocalError ''aug'')"
    using unbound_aug [of "fresh_sequential_module\<lparr>trainer :=
        Some (phase_trainer False False False False)\<rparr>" sequential_truth sequential_call
        "[''raw'']" 0, THEN conjunct2, THEN conjunct1, rule_format,
        of "phase_trainer False False False False"] sanity_example
    by blast
  have b: "on_after_batch_transfer sequential_truth sequential_call fresh_sequential_module
     [''raw''] 0 = Inr [''raw'']"
    using unbound_aug [of fresh_sequential_module sequential_truth sequential_call
        "[''raw'']" 0, THEN conjunct1] sanity_example(6)
    by (rule mp)
  from a b show ?thesis by (rule conjI)
qed

section \<open>The split of the counting datamodule\<close>

lemma py_slice_inside:
  assumes "0 \<le> i" and "i \<le> j" and "j \<le> int (length xs)"
  shows "py_slice xs i j = take (nat (j - i)) (drop (nat i) xs)"
  using assms by (simp add: py_slice_def Let_def min_def)

lemma fraction_lengths_two:
  assumes "a + b = 1" and "0 \<le> a" and "0 \<le> b"
  shows "fraction_lengths 1 [a, b] = Inr [a, b]"
  using assms by (simp add: fraction_lengths_def Let_def)

lemma random_split_two:
  assumes "a + b = dataset_len len_of ds" and "0 \<le> a" and "0 \<le> b"
  shows "random_split fractions randperm len_of ds [a, b] =
     Inr [Subset ds (py_slice (randperm (nat (a + b))) 0 a),
          Subset ds (py_slice (randperm (nat (a + b))) a (a + b))]"
proof (cases "fractions \<and> a + b = 1")
  case True
  then have one: "a + b = 1" and len: "dataset_len len_of ds = 1"
    using assms(1) by simp_all
  have f: "fraction_lengths 1 [a, b] = Inr [a, b]"
    using one assms(2,3) by (rule fraction_lengths_two)
  have a: "a = 1 - b"
    using one by simp
  show ?thesis
    using True by (simp add: random_split_def Let_def len f one) (simp add: a)
next
  case False
  then show ?thesis
    by (auto simp add: random_split_def Let_def assms(1) [symmetric])
qed

lemma is_randperm_length: "is_randperm randperm n \<Longrightarrow> length (randperm n) = n"
  unfolding is_randperm_def
  by (metis card_atLeastLessThan diff_zero distinct_card)

lemma random_split_folds:
  assumes perm: "is_randperm randperm n" and le: "t \<le> n"
    and len: "dataset_len len_of ds = int n"
  shows "random_split fractions randperm len_of ds [int n - int t, int t] =
     Inr [Subset ds (take (n - t) (randperm n)), Subset ds (drop (n - t) (randperm n))]"
proof -
  have l: "length (randperm n) = n"
    using perm by (rule is_randperm_length)
  have s: "(int n - int t) + int t = dataset_len len_of ds"
    using len by simp
  have n: "nat ((int n - int t) + int t) = n"
    by simp
  have front: "py_slice (randperm n) 0 (int n - int t) = take (n - t) (randperm n)"
    using le l by (simp add: py_slice_inside nat_diff_distrib')
  have rear: "py_slice (randperm n) (int n - int t) (int n - int t + int t) =
      drop (n - t) (randperm n)"
    using le l by (simp add: py_slice_inside nat_diff_distrib')
  have nonneg: "0 \<le> int n - int t" "0 \<le> int t"
    using le by simp_all
  show ?thesis
    unfolding random_split_two [OF s nonneg] n front rear ..
qed

lemma folds_partition:
  assumes perm: "is_randperm randperm n" and le: "t \<le> n"
  shows "length (take (n - t) (randperm n)) + length (drop (n - t) (randperm n)) = n"
    and "length (drop (n - t) (randperm n)) = t"
    and "set (take (n - t) (randperm n)) \<inter> set (drop (n - t) (randperm n)) = {}"
    and "set (take (n - t) (randperm n)) \<union> set (drop (n - t) (randperm n)) = {0..<n}"
    and "distinct (take (n - t) (randperm n))"
    and "distinct (drop (n - t) (randperm n))"
proof -
  have l: "length (randperm n) = n"
    using perm by (rule is_randperm_length)
  have d: "distinct (randperm n)" and s: "set (randperm n) = {0..<n}"
    using perm by (simp_all add: is_randperm_def)
  show "length (take (n - t) (randperm n)) + length (drop (n - t) (randperm n)) = n"
    using l by simp
  show "length (drop (n - t) (randperm n)) = t"
    using l le by simp
  show "set (take (n - t) (randperm n)) \<inter> set (drop (n - t) (randperm n)) = {}"
    using d by (rule set_take_disj_set_drop_if_distinct) simp
  have "set (take (n - t) (randperm n) @ drop (n - t) (randperm n)) = {0..<n}"
    using s by (simp only: append_take_drop_id)
  then show "set (take (n - t) (randperm n)) \<union> set (drop (n - t) (randperm n)) = {0..<n}"
    by (simp only: set_append)
  show "distinct (take (n - t) (randperm n))" "distinct (drop (n - t) (randperm n))"
    using d by simp_all
qed

lemma cowc_setup_eq:
  assumes kw: "kwargs self ''split'' = None"
    and perm: "is_randperm randperm
                 (len_of (COWCCounting ((kwargs self)(''split'' \<mapsto> VStr ''train''))))"
    and le: "len_of (COWCCounting ((kwargs self)(''split'' \<mapsto> VStr ''test''))) \<le>
             len_of (COWCCounting ((kwargs self)(''split'' \<mapsto> VStr ''train'')))"
  shows "COWCCountingDataModule_setup fractions randperm len_of COWCCounting stage self =
     ([(kwargs self)(''split'' \<mapsto> VStr ''train''), (kwargs self)(''split'' \<mapsto> VStr ''test'')],
      Inr (self\<lparr>test_dataset :=
               Some (Provided (COWCCounting ((kwargs self)(''split'' \<mapsto> VStr ''test'')))),
             train_dataset :=
               Some (Subset (Provided (COWCCounting ((kwargs self)(''split'' \<mapsto> VStr ''train''))))
                 (take (len_of (COWCCounting ((kwargs self)(''split'' \<mapsto> VStr ''train''))) -
                        len_of (COWCCounting ((kwargs self)(''split'' \<mapsto> VStr ''test''))))
                    (randperm (len_of (COWCCounting ((kwargs self)(''split'' \<mapsto> VStr ''train''))))))),
             val_dataset :=
               Some (Subset (Provided (COWCCounting ((kwargs self)(''split'' \<mapsto> VStr ''train''))))
                 (drop (len_of (COWCCounting ((kwargs self)(''split'' \<mapsto> VStr ''train''))) -
                        len_of (COWCCounting ((kwargs self)(''split'' \<mapsto> VStr ''test''))))
                    (randperm (len_of (COWCCounting ((kwargs self)(''split'' \<mapsto> VStr ''train'')))))))\<rparr>))"
proof -
  have rs: "random_split fractions randperm len_of
        (Provided (COWCCounting ((kwargs self)(''split'' \<mapsto> VStr ''train''))))
        [dataset_len len_of (Provided (COWCCounting ((kwargs self)(''split'' \<mapsto> VStr ''train'')))) -
         dataset_len len_of (Provided (COWCCounting ((kwargs self)(''split'' \<mapsto> VStr ''test'')))),
         dataset_len len_of (Provided (COWCCounting ((kwargs self)(''split'' \<mapsto> VStr ''test''))))] =
      Inr [Subset (Provided (COWCCounting ((kwargs self)(''split'' \<mapsto> VStr ''train''))))
             (take (len_of (COWCCounting ((kwargs self)(''split'' \<mapsto> VStr ''train''))) -
                    len_of (COWCCounting ((kwargs self)(''split'' \<mapsto> VStr ''test''))))
                (randperm (len_of (COWCCounting ((kwargs self)(''split'' \<mapsto> VStr ''train'')))))),
           Subset (Provided (COWCCounting ((kwargs self)(''split'' \<mapsto> VStr ''train''))))
             (drop (len_of (COWCCounting ((kwargs self)(''split'' \<mapsto> VStr ''train''))) -
                    len_of (COWCCounting ((kwargs self)(''split'' \<mapsto> VStr ''test''))))
                (randperm (len_of (COWCCounting ((kwargs self)(''split'' \<mapsto> VStr ''train''))))))]"
    using random_split_folds [OF perm le, of len_of
        "Provided (COWCCounting ((kwargs self)(''split'' \<mapsto> VStr ''train'')))" fractions]
    by simp
  show ?thesis
    unfolding COWCCountingDataModule_setup_def construct_split
    by (simp add: kw bind_run_def rs del: dataset_len.simps)
qed

text \<open>
  C5. When the train split has at least as many samples as the test split (and the
  configuration bag has no \<^verbatim>\<open>split\<close> key, so that both splits are built, and the
  random generator gives a permutation of the indices), \<^verbatim>\<open>setup\<close> of the counting
  datamodule returns, in either release of \<^verbatim>\<open>random_split\<close>, with the train and val
  references holding two subsets of the train split whose index lists have lengths that
  add up to the length of the train split, the val one of the length of the test split,
  and that are disjoint, without repetition and together all indices of the train split.
\<close>

theorem cowc_split_partition:
  assumes kw: "kwargs self ''split'' = None"
    and perm: "is_randperm randperm
                 (len_of (COWCCounting ((kwargs self)(''split'' \<mapsto> VStr ''train''))))"
    and le: "len_of (COWCCounting ((kwargs self)(''split'' \<mapsto> VStr ''test''))) \<le>
             len_of (COWCCounting ((kwargs self)(''split'' \<mapsto> VStr ''train'')))"
  shows "\<exists>train_fold val_fold.
     COWCCountingDataModule_setup fractions randperm len_of COWCCounting stage self =
       ([(kwargs self)(''split'' \<mapsto> VStr ''train''), (kwargs self)(''split'' \<mapsto> VStr ''test'')],
        Inr (self\<lparr>test_dataset :=
                 Some (Provided (COWCCounting ((kwargs self)(''split'' \<mapsto> VStr ''test'')))),
               train_dataset :=
                 Some (Subset
                   (Provided (COWCCounting ((kwargs self)(''split'' \<mapsto> VStr ''train''))))
                   train_fold),
               val_dataset :=
                 Some (Subset
                   (Provided (COWCCounting ((kwargs self)(''split'' \<mapsto> VStr ''train''))))
                   val_fold)\<rparr>)) \<and>
     length train_fold + length val_fold =
       len_of (COWCCounting ((kwargs self)(''split'' \<mapsto> VStr ''train''))) \<and>
     length val_fold = len_of (COWCCounting ((kwargs self)(''split'' \<mapsto> VStr ''test''))) \<and>
     set train_fold \<inter> set val_fold = {} \<and>
     set train_fold \<union> set val_fold =
       {0..<len_of (COWCCounting ((kwargs self)(''split'' \<mapsto> VStr ''train'')))} \<and>
     distinct train_fold \<and> distinct val_fold"
proof (intro exI conjI)
  show "COWCCountingDataModule_setup fractions randperm len_of COWCCounting stage self =
     ([(kwargs self)(''split'' \<mapsto> VStr ''train''), (kwargs self)(''split'' \<mapsto> VStr ''test'')],
      Inr (self\<lparr>test_dataset :=
               Some (Provided (COWCCounting ((kwargs self)(''split'' \<mapsto> VStr ''test'')))),
             train_dataset :=
               Some (Subset (Provided (COWCCounting ((kwargs self)(''split'' \<mapsto> VStr ''train''))))
                 (take (len_of (COWCCounting ((kwargs self)(''split'' \<mapsto> VStr ''train''))) -
                        len_of (COWCCounting ((kwargs self)(''split'' \<mapsto> VStr ''test''))))
                    (randperm (len_of (COWCCounting ((kwargs self)(''split'' \<mapsto> VStr ''train''))))))),
             val_dataset :=
               Some (Subset (Provided (COWCCounting ((kwargs self)(''split'' \<mapsto> VStr ''train''))))
                 (drop (len_of (COWCCounting ((kwargs self)(''split'' \<mapsto> VStr ''train''))) -
                        len_of (COWCCounting ((kwargs self)(''split'' \<mapsto> VStr ''test''))))
                    (randperm (len_of (COWCCounting ((kwargs self)(''split'' \<mapsto> VStr ''train'')))))))\<rparr>))"
    using kw perm le
    by (rule cowc_setup_eq [where self = self and randperm = randperm and len_of = len_of
          and COWCCounting = COWCCounting and fractions = fractions])
qed (rule folds_partition [OF perm le])+

lemma is_randperm_reversed: "is_randperm reversed_perm n"
  by (simp add: is_randperm_def reversed_perm_def)

lemma counting_example:
  "kwargs fresh_module = Map.empty"
  "example_counting [''split'' \<mapsto> VStr ''train''] = 5"
  "example_counting [''split'' \<mapsto> VStr ''test''] = 2"
  by (simp_all add: fresh_module_def example_counting_def)

theorem cowc_split_partition_witness:
  "kwargs fresh_module ''split'' = None \<and> is_randperm reversed_perm 5 \<and> (2::nat) \<le> 5 \<and>
   (\<exists>train_fold val_fold.
     COWCCountingDataModule_setup True reversed_perm (\<lambda>n. n) example_counting ''fit'' fresh_module =
       ([[''split'' \<mapsto> VStr ''train''], [''split'' \<mapsto> VStr ''test'']],
        Inr (fresh_module\<lparr>test_dataset := Some (Provided 2),
               train_dataset := Some (Subset (Provided 5) train_fold),
               val_dataset := Some (Subset (Provided 5) val_fold)\<rparr>)) \<and>
     length train_fold + length val_fold = 5 \<and> length val_fold = 2 \<and>
     set train_fold \<inter> set val_fold = {} \<and> set train_fold \<union> set val_fold = {0..<5} \<and>
     distinct train_fold \<and> distinct val_fold)"
proof -
  have h1: "kwargs fresh_module ''split'' = None"
    by (simp add: counting_example(1))
  have h2: "is_randperm reversed_perm
      ((\<lambda>n. n) (example_counting ((kwargs fresh_module)(''split'' \<mapsto> VStr ''train''))))"
    by (rule is_randperm_reversed)
  have h3: "(\<lambda>n. n) (example_counting ((kwargs fresh_module)(''split'' \<mapsto> VStr ''test''))) \<le>
      (\<lambda>n. n) (example_counting ((kwargs fresh_module)(''split'' \<mapsto> VStr ''train'')))"
    by (simp add: counting_example)
  from cowc_split_partition [where self = fresh_module and randperm = reversed_perm
      and len_of = "\<lambda>n. n" and COWCCounting = example_counting and stage = "''fit''"
      and fractions = True, OF h1 h2 h3]
  have e: "\<exists>train_fold val_fold.
     COWCCountingDataModule_setup True reversed_perm (\<lambda>n. n) example_counting ''fit'' fresh_module =
       ([[''split'' \<mapsto> VStr ''train''], [''split'' \<mapsto> VStr ''test'']],
        Inr (fresh_module\<lparr>test_dataset := Some (Provided 2),
               train_dataset := Some (Subset (Provided 5) train_fold),
               val_dataset := Some (Subset (Provided 5) val_fold)\<rparr>)) \<and>
     length train_fold + length val_fold = 5 \<and> length val_fold = 2 \<and>
     set train_fold \<inter> set val_fold = {} \<and> set train_fold \<union> set val_fold = {0..<5} \<and>
     distinct train_fold \<and> distinct val_fold"
    by (simp only: counting_example)
  show ?thesis
  proof (intro conjI)
    show "kwargs fresh_module ''split'' = None"
      by (rule h1)
    show "is_randperm reversed_perm 5"
      by (rule is_randperm_reversed)
    show "(2::nat) \<le> 5"
      by simp
  qed (rule e)
qed

section \<open>Setup of the multi-band datamodule\<close>

lemma construct_ordered_free:
  "kw ''split'' = None \<Longrightarrow> kw ''bands'' = None \<Longrightarrow>
   construct_ordered bag_keys cls [(''split'', v), (''bands'', b)] kw =
     ([kw(''bands'' \<mapsto> b, ''split'' \<mapsto> v)],
      Inr (Provided (cls (kw(''bands'' \<mapsto> b, ''split'' \<mapsto> v)))))"
proof -
  assume k: "kw ''split'' = None" "kw ''bands'' = None"
  have "filter (\<lambda>k. k \<in> set (map fst [(''split'', v), (''bands'', b)]))
      (filter (\<lambda>k. \<not> Option.is_none (kw k)) bag_keys) = []"
    using k by (auto simp add: filter_empty_conv Option.is_none_def)
  then show ?thesis
    using k by (simp add: construct_ordered_def construct_def Option.is_none_def)
qed

lemma construct_ordered_clash:
  assumes "kw ''split'' \<noteq> None \<or> kw ''bands'' \<noteq> None"
  shows "\<exists>k. construct_ordered bag_keys cls [(''split'', v), (''bands'', b)] kw =
           ([], Inl (TypeError k)) \<and>
         construct_ordered bag_keys cls [(''split'', v'), (''bands'', b')] kw =
           ([], Inl (TypeError k))"
  using assms
  by (auto simp add: construct_ordered_def construct_def Option.is_none_def split: list.splits)


lemma so2sat_setup_eq:
  assumes "BAND_SETS ''s2'' = Some bands"
    and "kwargs self ''split'' = None" and "kwargs self ''bands'' = None"
  shows "So2SatDataModule_setup So2Sat BAND_SETS bag_keys stage self =
     ([(kwargs self)(''bands'' \<mapsto> VStrs bands, ''split'' \<mapsto> VStr ''train''),
       (kwargs self)(''bands'' \<mapsto> VStrs bands, ''split'' \<mapsto> VStr ''validation''),
       (kwargs self)(''bands'' \<mapsto> VStrs bands, ''split'' \<mapsto> VStr ''test'')],
      Inr (self\<lparr>train_dataset := Some (Provided (So2Sat
               ((kwargs self)(''bands'' \<mapsto> VStrs bands, ''split'' \<mapsto> VStr ''train'')))),
             val_dataset := Some (Provided (So2Sat
               ((kwargs self)(''bands'' \<mapsto> VStrs bands, ''split'' \<mapsto> VStr ''validation'')))),
             test_dataset := Some (Provided (So2Sat
               ((kwargs self)(''bands'' \<mapsto> VStrs bands, ''split'' \<mapsto> VStr ''test''))))\<rparr>))"
  unfolding So2SatDataModule_setup_def
  by (simp add: assms construct_ordered_free bind_run_def)

lemma so2sat_setup_clash:
  assumes "BAND_SETS ''s2'' = Some bands"
    and "kwargs self ''split'' \<noteq> None \<or> kwargs self ''bands'' \<noteq> None"
  shows "\<exists>k. So2SatDataModule_setup So2Sat BAND_SETS bag_keys stage self =
     ([], Inl (TypeError k))"
proof -
  from construct_ordered_clash [OF assms(2)]
  obtain k where "construct_ordered bag_keys So2Sat
      [(''split'', VStr ''train''), (''bands'', VStrs bands)] (kwargs self) =
      ([], Inl (TypeError k))"
    by blast
  then show ?thesis
    unfolding So2SatDataModule_setup_def by (simp add: assms(1) bind_run_def)
qed

lemma so2sat_setup_no_bands:
  "BAND_SETS ''s2'' = None \<Longrightarrow>
   So2SatDataModule_setup So2Sat BAND_SETS bag_keys stage self = ([], Inl (KeyError ''s2''))"
  by (simp add: So2SatDataModule_setup_def)

text \<open>
  On any module, \<^verbatim>\<open>setup\<close> hands the band list \<^verbatim>\<open>So2Sat.BAND_SETS["s2"]\<close> to every
  construction it makes, and the two normalisation vectors of the class have ten entries
  each.
\<close>

lemma so2sat_setup_passes_s2:
  "\<forall>c \<in> set (fst (So2SatDataModule_setup So2Sat BAND_SETS bag_keys stage self)).
     c ''bands'' = map_option VStrs (BAND_SETS ''s2'')"
proof (cases "BAND_SETS ''s2''")
  case None
  then show ?thesis
    by (simp add: so2sat_setup_no_bands)
next
  case (Some bands)
  show ?thesis
  proof (cases "kwargs self ''split'' \<noteq> None \<or> kwargs self ''bands'' \<noteq> None")
    case True
    from so2sat_setup_clash [where BAND_SETS = BAND_SETS and self = self, OF Some True]
    obtain k where "So2SatDataModule_setup So2Sat BAND_SETS bag_keys stage self =
        ([], Inl (TypeError k))"
      by blast
    then show ?thesis
      by simp
  next
    case False
    then have k: "kwargs self ''split'' = None" "kwargs self ''bands'' = None"
      by simp_all
    show ?thesis
      unfolding so2sat_setup_eq [where BAND_SETS = BAND_SETS and self = self, OF Some k]
      by (simp add: Some)
  qed
qed

lemma band_statistics_length: "length band_means = 10 \<and> length band_stds = 10"
  by (simp add: band_means_def band_stds_def)

lemma so2sat_setup_flag:
  "So2SatDataModule_setup So2Sat BAND_SETS bag_keys stage (self\<lparr>unsupervised_mode := u\<rparr>) =
     (fst (So2SatDataModule_setup So2Sat BAND_SETS bag_keys stage self),
      map_sum (\<lambda>e. e) (\<lambda>m. m\<lparr>unsupervised_mode := u\<rparr>)
        (snd (So2SatDataModule_setup So2Sat BAND_SETS bag_keys stage self)))"
proof (cases "BAND_SETS ''s2''")
  case None
  then show ?thesis
    by (simp add: so2sat_setup_no_bands)
next
  case (Some bands)
  show ?thesis
  proof (cases "kwargs self ''split'' \<noteq> None \<or> kwargs self ''bands'' \<noteq> None")
    case True
    from construct_ordered_clash [OF True]
    obtain k where "construct_ordered bag_keys So2Sat
        [(''split'', VStr ''train''), (''bands'', VStrs bands)] (kwargs self) =
        ([], Inl (TypeError k))"
      by blast
    then show ?thesis
      unfolding So2SatDataModule_setup_def by (simp add: Some bind_run_def)
  next
    case False
    then have k: "kwargs self ''split'' = None" "kwargs self ''bands'' = None"
      by simp_all
    then have k': "kwargs (self\<lparr>unsupervised_mode := u\<rparr>) ''split'' = None"
      "kwargs (self\<lparr>unsupervised_mode := u\<rparr>) ''bands'' = None"
      by simp_all
    show ?thesis
      unfolding so2sat_setup_eq [where BAND_SETS = BAND_SETS and self = self, OF Some k]
        so2sat_setup_eq [where BAND_SETS = BAND_SETS
          and self = "self\<lparr>unsupervised_mode := u\<rparr>", OF Some k']
      by simp
  qed
qed


text \<open>
  C6. The claim is about a multi-band datamodule constructed with
  \<^verbatim>\<open>band_set="s2"\<close>. No such module is constructed: whatever the other arguments,
  \<^verbatim>\<open>__init__\<close> raises \<^verbatim>\<open>TypeError\<close> at \<^verbatim>\<open>super().__init__()\<close>, which leaves out the
  required \<^verbatim>\<open>dataset_class\<close>, before any attribute is assigned and before the
  augmentation pipeline is built. (The counting datamodule passes the class.)
\<close>

theorem so2sat_init_raises:
  "So2SatDataModule_init mk_aug batch_size_arg num_workers_arg (Some ''s2'')
     unsupervised_mode_arg kw = Inl (TypeError ''dataset_class'')"
  by (simp add: So2SatDataModule_init_def NonGeoDataModule_init_def)

text \<open>
  C9. \<^verbatim>\<open>setup\<close> of the multi-band datamodule does not read \<^verbatim>\<open>unsupervised_mode\<close>:
  on two modules that differ in that flag only, it makes the same dataset constructions,
  raises the same error or returns modules that differ in the flag only, so that the four
  dataset references are the same. When the band dictionary has the key \<^verbatim>\<open>s2\<close> and
  the configuration bag has neither a \<^verbatim>\<open>split\<close> nor a \<^verbatim>\<open>bands\<close> key, the
  constructions are the three for the splits \<^verbatim>\<open>train\<close>, \<^verbatim>\<open>validation\<close> and
  \<^verbatim>\<open>test\<close>, each with the bands of \<^verbatim>\<open>s2\<close> and the options of the bag.
\<close>

theorem unsupervised_mode_unused:
  "fst (So2SatDataModule_setup So2Sat BAND_SETS bag_keys stage (self\<lparr>unsupervised_mode := u\<rparr>)) =
     fst (So2SatDataModule_setup So2Sat BAND_SETS bag_keys stage self) \<and>
   snd (So2SatDataModule_setup So2Sat BAND_SETS bag_keys stage (self\<lparr>unsupervised_mode := u\<rparr>)) =
     map_sum (\<lambda>e. e) (\<lambda>m. m\<lparr>unsupervised_mode := u\<rparr>)
       (snd (So2SatDataModule_setup So2Sat BAND_SETS bag_keys stage self)) \<and>
   map_sum (\<lambda>e. e) (\<lambda>m. (train_dataset m, val_dataset m, test_dataset m, predict_dataset m))
       (snd (So2SatDataModule_setup So2Sat BAND_SETS bag_keys stage (self\<lparr>unsupervised_mode := u\<rparr>))) =
     map_sum (\<lambda>e. e) (\<lambda>m. (train_dataset m, val_dataset m, test_dataset m, predict_dataset m))
       (snd (So2SatDataModule_setup So2Sat BAND_SETS bag_keys stage self)) \<and>
   (\<forall>bands. BAND_SETS ''s2'' = Some bands \<and> kwargs self ''split'' = None \<and>
        kwargs self ''bands'' = None \<longrightarrow>
      fst (So2SatDataModule_setup So2Sat BAND_SETS bag_keys stage self) =
        [(kwargs self)(''bands'' \<mapsto> VStrs bands, ''split'' \<mapsto> VStr ''train''),
         (kwargs self)(''bands'' \<mapsto> VStrs bands, ''split'' \<mapsto> VStr ''validation''),
         (kwargs self)(''bands'' \<mapsto> VStrs bands, ''split'' \<mapsto> VStr ''test'')])"
proof (intro conjI allI impI)
  show "fst (So2SatDataModule_setup So2Sat BAND_SETS bag_keys stage (self\<lparr>unsupervised_mode := u\<rparr>)) =
     fst (So2SatDataModule_setup So2Sat BAND_SETS bag_keys stage self)"
    by (simp add: so2sat_setup_flag)
  show "snd (So2SatDataModule_setup So2Sat BAND_SETS bag_keys stage (self\<lparr>unsupervised_mode := u\<rparr>)) =
     map_sum (\<lambda>e. e) (\<lambda>m. m\<lparr>unsupervised_mode := u\<rparr>)
       (snd (So2SatDataModule_setup So2Sat BAND_SETS bag_keys stage self))"
    by (simp add: so2sat_setup_flag)
  show "map_sum (\<lambda>e. e) (\<lambda>m. (train_dataset m, val_dataset m, test_dataset m, predict_dataset m))
       (snd (So2SatDataModule_setup So2Sat BAND_SETS bag_keys stage (self\<lparr>unsupervised_mode := u\<rparr>))) =
     map_sum (\<lambda>e. e) (\<lambda>m. (train_dataset m, val_dataset m, test_dataset m, predict_dataset m))
       (snd (So2SatDataModule_setup So2Sat BAND_SETS bag_keys stage self))"
    by (simp add: so2sat_setup_flag sum.map_comp comp_def)
next
  fix bands
  assume "BAND_SETS ''s2'' = Some bands \<and> kwargs self ''split'' = None \<and>
    kwargs self ''bands'' = None"
  then show "fst (So2SatDataModule_setup So2Sat BAND_SETS bag_keys stage self) =
        [(kwargs self)(''bands'' \<mapsto> VStrs bands, ''split'' \<mapsto> VStr ''train''),
         (kwargs self)(''bands'' \<mapsto> VStrs bands, ''split'' \<mapsto> VStr ''validation''),
         (kwargs self)(''bands'' \<mapsto> VStrs bands, ''split'' \<mapsto> VStr ''test'')]"
    by (simp add: so2sat_setup_eq)
qed

lemma so2sat_example:
  "example_band_sets ''s2'' = Some [''B02'', ''B03'', ''B04'']"
  "kwargs example_so2sat = Map.empty"
  by (simp_all add: example_band_sets_def example_so2sat_def)

theorem unsupervised_mode_unused_witness:
  "example_band_sets ''s2'' = Some [''B02'', ''B03'', ''B04''] \<and>
   kwargs example_so2sat ''split'' = None \<and> kwargs example_so2sat ''bands'' = None \<and>
   fst (So2SatDataModule_setup example_so2sat_class example_band_sets [] None example_so2sat) =
     [[''bands'' \<mapsto> VStrs [''B02'', ''B03'', ''B04''], ''split'' \<mapsto> VStr ''train''],
      [''bands'' \<mapsto> VStrs [''B02'', ''B03'', ''B04''], ''split'' \<mapsto> VStr ''validation''],
      [''bands'' \<mapsto> VStrs [''B02'', ''B03'', ''B04''], ''split'' \<mapsto> VStr ''test'']] \<and>
   fst (So2SatDataModule_setup example_so2sat_class example_band_sets [] None
          (example_so2sat\<lparr>unsupervised_mode := True\<rparr>)) =
     [[''bands'' \<mapsto> VStrs [''B02'', ''B03'', ''B04''], ''split'' \<mapsto> VStr ''train''],
      [''bands'' \<mapsto> VStrs [''B02'', ''B03'', ''B04''], ''split'' \<mapsto> VStr ''validation''],
      [''bands'' \<mapsto> VStrs [''B02'', ''B03'', ''B04''], ''split'' \<mapsto> VStr ''test'']]"
proof -
  note t = unsupervised_mode_unused [where So2Sat = example_so2sat_class
      and BAND_SETS = example_band_sets and bag_keys = "[]" and stage = None
      and self = example_so2sat and u = True]
  have h: "example_band_sets ''s2'' = Some [''B02'', ''B03'', ''B04''] \<and>
      kwargs example_so2sat ''split'' = None \<and> kwargs example_so2sat ''bands'' = None"
    by (simp add: so2sat_example)
  have a: "fst (So2SatDataModule_setup example_so2sat_class example_band_sets [] None
        example_so2sat) =
     [(kwargs example_so2sat)(''bands'' \<mapsto> VStrs [''B02'', ''B03'', ''B04''],
         ''split'' \<mapsto> VStr ''train''),
      (kwargs example_so2sat)(''bands'' \<mapsto> VStrs [''B02'', ''B03'', ''B04''],
         ''split'' \<mapsto> VStr ''validation''),
      (kwargs example_so2sat)(''bands'' \<mapsto> VStrs [''B02'', ''B03'', ''B04''],
         ''split'' \<mapsto> VStr ''test'')]"
    using t [THEN conjunct2, THEN conjunct2, THEN conjunct2, rule_format, OF h] .
  have b: "fst (So2SatDataModule_setup example_so2sat_class example_band_sets [] None
        (example_so2sat\<lparr>unsupervised_mode := True\<rparr>)) =
      fst (So2SatDataModule_setup example_so2sat_class example_band_sets [] None example_so2sat)"
    using t [THEN conjunct1] .
  show ?thesis
    unfolding b a so2sat_example(2) using h by simp
qed

end
